theory Spec2Isabelle
  imports Complex_Main "HOL-Library.Sublist" "HOL-Library.AList"
begin

section \<open>JavaScript values\<close>

text \<open>
  Parsed JSON, as \<^verbatim>\<open>JSON.parse\<close> returns it. An object is the sequence of its own
  properties; a number is kept as its decimal literal, since the program never computes
  with the numbers of a descriptor. A JavaScript string is a sequence of code units; the
  model keeps the code units below 256, which is what \<^typ>\<open>char\<close> holds.
\<close>

datatype json =
    JNull
  | JBool bool
  | JNum string
  | JStr string
  | JArr "json list"
  | JObj "(string \<times> json) list"

text \<open>The errors the program throws or receives: a rejected file-system call, a
  \<^verbatim>\<open>TypeError\<close> of the runtime, and \<^verbatim>\<open>new Error(message)\<close>.\<close>

datatype error = IOError | TypeError | Error string

text \<open>A numeric literal denotes zero when its mantissa has no digit other than \<open>0\<close>.\<close>

definition is_zero_literal :: "string \<Rightarrow> bool" where
  "is_zero_literal lexeme =
     (\<forall>c \<in> set (takeWhile (\<lambda>c. c \<noteq> CHR ''e'' \<and> c \<noteq> CHR ''E'') lexeme).
        c = CHR ''0'' \<or> c = CHR ''.'' \<or> c = CHR ''-'')"

text \<open>Truthiness of a property read: \<open>None\<close> is \<^verbatim>\<open>undefined\<close>.\<close>

fun truthy :: "json option \<Rightarrow> bool" where
  "truthy None = False"
| "truthy (Some JNull) = False"
| "truthy (Some (JBool b)) = b"
| "truthy (Some (JNum n)) = (\<not> is_zero_literal n)"
| "truthy (Some (JStr s)) = (s \<noteq> [])"
| "truthy (Some (JArr xs)) = True"
| "truthy (Some (JObj kvs)) = True"

text \<open>Property read \<^verbatim>\<open>v.k\<close> on a value that is not \<^verbatim>\<open>null\<close>: only objects
  have the properties the program reads.\<close>

fun get_prop :: "json \<Rightarrow> string \<Rightarrow> json option" where
  "get_prop (JObj kvs) k = map_of kvs k"
| "get_prop v k = None"

section \<open>The \<^verbatim>\<open>path\<close> module (POSIX)\<close>

text \<open>
  An absolute, normalized path is the list of its segments below the root, together with
  a flag that tells whether the path string ends in a separator
  (\<^verbatim>\<open>path.join\<close> keeps a trailing separator).
\<close>

type_synonym path = "string list"
type_synonym fspath = "path \<times> bool"

text \<open>\<^verbatim>\<open>s.split('/')\<close>\<close>

fun split_slash :: "string \<Rightarrow> string list" where
  "split_slash [] = [[]]"
| "split_slash (c # cs) =
     (case split_slash cs of
        [] \<Rightarrow> if c = CHR ''/'' then [[], []] else [[c]]
      | s # ss \<Rightarrow> if c = CHR ''/'' then [] # s # ss else (c # s) # ss)"

text \<open>One step of \<^verbatim>\<open>path.normalize\<close> on an absolute path: empty and \<^verbatim>\<open>.\<close>
  segments are dropped, \<^verbatim>\<open>..\<close> removes the segment before it and is dropped at the
  root.\<close>

definition norm_step :: "path \<Rightarrow> string \<Rightarrow> path" where
  "norm_step p seg =
     (if seg = [] \<or> seg = ''.'' then p
      else if seg = ''..'' then butlast p
      else p @ [seg])"

definition normalize_from :: "path \<Rightarrow> string list \<Rightarrow> path" where
  "normalize_from p segs = foldl norm_step p segs"

text \<open>\<^verbatim>\<open>path.join(base, rel)\<close> for a normalized absolute \<open>base\<close>: an empty \<open>rel\<close> is
  skipped; otherwise \<^verbatim>\<open>base + '/' + rel\<close> is normalized.\<close>

definition path_join :: "fspath \<Rightarrow> string \<Rightarrow> fspath" where
  "path_join base rel =
     (if rel = [] then base
      else (let p = normalize_from (fst base) (split_slash rel)
            in (p, p \<noteq> [] \<and> last rel = CHR ''/'')))"

text \<open>\<^verbatim>\<open>path.dirname\<close>\<close>

definition path_dirname :: "fspath \<Rightarrow> fspath" where
  "path_dirname fp = (butlast (fst fp), False)"

text \<open>The template string \<^verbatim>\<open>`${fullPath}${suffix}`\<close>, for a suffix without a separator:
  the suffix extends the last segment, or is a segment of its own after a separator.\<close>

definition path_suffix :: "fspath \<Rightarrow> string \<Rightarrow> fspath" where
  "path_suffix fp sfx =
     (if snd fp \<or> fst fp = [] then (fst fp @ [sfx], False)
      else (butlast (fst fp) @ [last (fst fp) @ sfx], False))"

text \<open>\<^verbatim>\<open>PROJECTS_DIR = path.join(__dirname, 'generated_projects')\<close>\<close>

definition PROJECTS_DIR :: "path \<Rightarrow> fspath" where
  "PROJECTS_DIR dirname = path_join (dirname, False) ''generated_projects''"

section \<open>The file system\<close>

text \<open>
  The disk is a tree: a regular file with its content and modification time, or a
  directory with its entries in the order \<^verbatim>\<open>readdir\<close> lists them. No handler of the
  program looks at the code of a rejected call, so a rejected call is \<open>None\<close>.
\<close>

datatype node = File string nat | Dir "(string \<times> node) list"

fun lookup :: "node \<Rightarrow> path \<Rightarrow> node option" where
  "lookup n [] = Some n"
| "lookup (File c t) (s # p) = None"
| "lookup (Dir items) (s # p) =
     (case map_of items s of None \<Rightarrow> None | Some child \<Rightarrow> lookup child p)"

fun is_dir :: "node \<Rightarrow> bool" where
  "is_dir (Dir items) = True"
| "is_dir (File c t) = False"

text \<open>\<^verbatim>\<open>fs.stat\<close>: a path with a trailing separator must name a directory.\<close>

definition stat :: "node \<Rightarrow> fspath \<Rightarrow> node option" where
  "stat fs fp =
     (case lookup fs (fst fp) of
        None \<Rightarrow> None
      | Some n \<Rightarrow> if snd fp \<and> \<not> is_dir n then None else Some n)"

text \<open>\<^verbatim>\<open>fs.access\<close>\<close>

definition access :: "node \<Rightarrow> fspath \<Rightarrow> bool" where
  "access fs fp = (stat fs fp \<noteq> None)"

text \<open>\<^verbatim>\<open>fs.readFile(p, 'utf8')\<close>\<close>

definition readFile :: "node \<Rightarrow> fspath \<Rightarrow> string option" where
  "readFile fs fp =
     (case stat fs fp of
        Some (File c t) \<Rightarrow> Some c
      | _ \<Rightarrow> None)"


text \<open>\<^verbatim>\<open>fs.mkdir(p, {recursive: true})\<close>: creates the missing directories of the chain;
  rejected when a regular file is on the way or at the end.\<close>

fun mkdir_at :: "node \<Rightarrow> path \<Rightarrow> node option" where
  "mkdir_at (Dir items) [] = Some (Dir items)"
| "mkdir_at (File c t) p = None"
| "mkdir_at (Dir items) (s # p) =
     (case mkdir_at (case map_of items s of None \<Rightarrow> Dir [] | Some child \<Rightarrow> child) p of
        None \<Rightarrow> None
      | Some d \<Rightarrow> Some (Dir (AList.update s d items)))"

definition mkdir :: "node \<Rightarrow> fspath \<Rightarrow> node option" where
  "mkdir fs fp = mkdir_at fs (fst fp)"

text \<open>\<^verbatim>\<open>fs.writeFile\<close>: creates or overwrites a regular file in an existing directory;
  rejected on a directory, below a regular file, in a missing directory, and for a path
  with a trailing separator.\<close>

fun write_at :: "node \<Rightarrow> path \<Rightarrow> string \<Rightarrow> nat \<Rightarrow> node option" where
  "write_at (File c t) [] content now = Some (File content now)"
| "write_at (Dir items) [] content now = None"
| "write_at (File c t) (s # p) content now = None"
| "write_at (Dir items) (s # p) content now =
     (case map_of items s of
        None \<Rightarrow> if p = [] then Some (Dir (AList.update s (File content now) items)) else None
      | Some child \<Rightarrow>
          (case write_at child p content now of
             None \<Rightarrow> None
           | Some d \<Rightarrow> Some (Dir (AList.update s d items))))"

definition writeFile :: "node \<Rightarrow> fspath \<Rightarrow> string \<Rightarrow> nat \<Rightarrow> node option" where
  "writeFile fs fp content now =
     (if snd fp then None else write_at fs (fst fp) content now)"



section \<open>The LLM gateway: \<^verbatim>\<open>GroqClient.chat\<close>\<close>

text \<open>
  The options of a call and the request that goes to the provider. A field that the
  caller left out is \<open>None\<close>; the numbers are the literals of the source, as rationals.
\<close>

record options =
  temperature :: "rat option"
  maxTokens :: "rat option"
  top_p :: "rat option"

record request =
  req_model :: string
  req_temperature :: rat
  req_max_tokens :: rat
  req_top_p :: rat
  req_stream :: bool

text \<open>\<^verbatim>\<open>v || d\<close> on an optional number: \<^verbatim>\<open>undefined\<close> and \<open>0\<close> are falsy.\<close>

definition or_default :: "rat option \<Rightarrow> rat \<Rightarrow> rat" where
  "or_default v d = (case v of None \<Rightarrow> d | Some x \<Rightarrow> if x = 0 then d else x)"

definition AVAILABLE_MODELS :: "(string \<times> string) list" where
  "AVAILABLE_MODELS =
     [(''llama-4-scout'', ''meta-llama/llama-4-scout-17b-16e-instruct''),
      (''llama-3.3-70b'', ''llama-3.3-70b-versatile''),
      (''mixtral-8x7b'', ''mixtral-8x7b-32768''),
      (''gemma2-9b'', ''gemma2-9b-it'')]"

text \<open>\<^verbatim>\<open>AVAILABLE_MODELS[model] || model\<close>\<close>

definition resolve_model :: "string \<Rightarrow> string" where
  "resolve_model model =
     (case map_of AVAILABLE_MODELS model of None \<Rightarrow> model | Some m \<Rightarrow> m)"

text \<open>The request \<^verbatim>\<open>GroqClient.chat\<close> hands to \<^verbatim>\<open>groq.chat.completions.create\<close>.\<close>

definition chat_request :: "string \<Rightarrow> options \<Rightarrow> request" where
  "chat_request model opts =
     \<lparr> req_model = resolve_model model,
       req_temperature = or_default (temperature opts) (7 / 10),
       req_max_tokens = or_default (maxTokens opts) 4000,
       req_top_p = or_default (top_p opts) 1,
       req_stream = False \<rparr>"

section \<open>Replies\<close>

text \<open>
  What a handler sends: the status of \<^verbatim>\<open>res.status(code).json({error: message})\<close>
  with its message, or the body of its success.
\<close>

record summary =
  s_id :: "json option"
  s_name :: "json option"
  s_description :: "json option"
  s_technology :: "json option"
  s_framework :: "json option"
  s_database :: "json option"
  s_generated :: "json option"
  s_model :: "json option"

datatype reply =
    Failure nat string
  | Deleted string
  | FileContent string string nat nat
  | Enhanced string string
  | Projects "summary list" nat
  | Project json
  | Generated string "string list"

text \<open>\<^verbatim>\<open>stats.size\<close> of a file read back as UTF-8: a code unit below 128 is one byte,
  one from 128 to 255 is two.\<close>

definition utf8_size :: "string \<Rightarrow> nat" where
  "utf8_size s = sum_list (map (\<lambda>c. if (of_char c :: nat) < 128 then 1 else 2) s)"

text \<open>The decimal digits of a number, as a template string prints it.\<close>

fun show_nat :: "nat \<Rightarrow> string" where
  "show_nat n =
     (if n < 10 then [char_of (48 + n)]
      else show_nat (n div 10) @ [char_of (48 + n mod 10)])"

declare show_nat.simps [simp del]

section \<open>Reading a file: \<^verbatim>\<open>GET /api/project/:projectId/file/*\<close>\<close>

definition project_path :: "path \<Rightarrow> string \<Rightarrow> fspath" where
  "project_path dirname projectId = path_join (PROJECTS_DIR dirname) projectId"

text \<open>\<^verbatim>\<open>path.join(PROJECTS_DIR, projectId, filePath)\<close>\<close>

definition file_path :: "path \<Rightarrow> string \<Rightarrow> string \<Rightarrow> fspath" where
  "file_path dirname projectId filePath =
     path_join (project_path dirname projectId) filePath"

definition get_file :: "path \<Rightarrow> string \<Rightarrow> string \<Rightarrow> node \<Rightarrow> reply" where
  "get_file dirname projectId filePath fs =
     (let fullPath = file_path dirname projectId filePath in
      case stat fs fullPath of
        None \<Rightarrow> Failure 404 ''File not found''
      | Some (Dir items) \<Rightarrow> Failure 400 ''Path is a directory, not a file''
      | Some (File c t) \<Rightarrow>
          (case readFile fs fullPath of
             None \<Rightarrow> Failure 404 ''File not found''
           | Some content \<Rightarrow> FileContent content filePath (utf8_size c) t))"

section \<open>Deleting a project: \<^verbatim>\<open>DELETE /api/project/:projectId\<close>\<close>


section \<open>Enhancing and rewriting a file\<close>

text \<open>
  \<^verbatim>\<open>projectGenerator.enhanceFileContent\<close> and \<^verbatim>\<open>rewriteFileContent\<close> ask the provider
  for the new content; here they are a parameter \<open>generator\<close> of the handler, which
  gives the new content from the path, the current content, the requirements and the
  model, or \<open>None\<close> when the call throws. A request field that is absent is \<open>None\<close>.
\<close>

type_synonym generator = "string \<Rightarrow> string \<Rightarrow> string \<Rightarrow> string \<Rightarrow> string option"

definition default_model :: "string option \<Rightarrow> string" where
  "default_model model = (case model of None \<Rightarrow> ''llama-4-scout'' | Some m \<Rightarrow> m)"

text \<open>The part both handlers share: read, generate, back up at \<open>backupPath\<close>, overwrite.
  Every failure inside is answered with 404.\<close>

definition backup_then_replace ::
  "generator \<Rightarrow> fspath \<Rightarrow> fspath \<Rightarrow> string \<Rightarrow> string \<Rightarrow> string \<Rightarrow> string \<Rightarrow> nat \<Rightarrow> node
     \<Rightarrow> reply \<times> node" where
  "backup_then_replace generator fullPath backupPath filePath wanted model message now fs =
     (case readFile fs fullPath of
        None \<Rightarrow> (Failure 404 ''File not found'', fs)
      | Some currentContent \<Rightarrow>
          (case generator filePath currentContent wanted model of
             None \<Rightarrow> (Failure 404 ''File not found'', fs)
           | Some newContent \<Rightarrow>
               (case writeFile fs backupPath currentContent now of
                  None \<Rightarrow> (Failure 404 ''File not found'', fs)
                | Some fs1 \<Rightarrow>
                    (case writeFile fs1 fullPath newContent now of
                       None \<Rightarrow> (Failure 404 ''File not found'', fs1)
                     | Some fs2 \<Rightarrow> (Enhanced message newContent, fs2)))))"

text \<open>\<^verbatim>\<open>PUT /api/project/:projectId/enhance/*\<close>: the backup is \<^verbatim>\<open>`${fullPath}.backup`\<close>.\<close>

definition enhance ::
  "path \<Rightarrow> generator \<Rightarrow> string \<Rightarrow> string \<Rightarrow> string option \<Rightarrow> string option \<Rightarrow> nat \<Rightarrow> node
     \<Rightarrow> reply \<times> node" where
  "enhance dirname enhanceFileContent projectId filePath requirements model now fs =
     (case requirements of
        None \<Rightarrow> (Failure 400 ''Requirements are required'', fs)
      | Some r \<Rightarrow>
          if r = [] then (Failure 400 ''Requirements are required'', fs)
          else
            (let fullPath = file_path dirname projectId filePath;
                 backupPath = path_suffix fullPath ''.backup''
             in backup_then_replace enhanceFileContent fullPath backupPath filePath r
                  (default_model model) ''File enhanced successfully'' now fs))"

text \<open>\<^verbatim>\<open>PUT /api/project/:projectId/rewrite/*\<close>: the backup is
  \<^verbatim>\<open>`${fullPath}.backup.${Date.now()}`\<close>.\<close>

definition rewrite ::
  "path \<Rightarrow> generator \<Rightarrow> string \<Rightarrow> string \<Rightarrow> string option \<Rightarrow> string option \<Rightarrow> nat \<Rightarrow> node
     \<Rightarrow> reply \<times> node" where
  "rewrite dirname rewriteFileContent projectId filePath instructions model now fs =
     (case instructions of
        None \<Rightarrow> (Failure 400 ''Instructions are required'', fs)
      | Some r \<Rightarrow>
          if r = [] then (Failure 400 ''Instructions are required'', fs)
          else
            (let fullPath = file_path dirname projectId filePath;
                 backupPath = path_suffix fullPath (''.backup.'' @ show_nat now)
             in backup_then_replace rewriteFileContent fullPath backupPath filePath r
                  (default_model model) ''File rewritten successfully'' now fs))"

section \<open>The runtime library\<close>

text \<open>
  \<^verbatim>\<open>JSON.parse\<close>, \<^verbatim>\<open>JSON.stringify(v, null, 2)\<close> and \<^verbatim>\<open>new Date(v).getTime()\<close>
  belong to the JavaScript runtime, not to the program. The program's functions take them
  as a parameter, so that what is proved of the program holds for every runtime.
  \<open>JSON_parse\<close> gives the value or the \<^verbatim>\<open>SyntaxError\<close> it throws; \<open>Date_time\<close> gives the
  milliseconds of a date or \<open>None\<close> for an invalid date, on a property that may be
  \<^verbatim>\<open>undefined\<close>.
\<close>

record runtime =
  JSON_parse :: "string \<Rightarrow> string + json"
  JSON_stringify :: "json \<Rightarrow> string"
  Date_time :: "json option \<Rightarrow> int option"

section \<open>The response extractor: \<^verbatim>\<open>generateProjectStructure\<close>, lines 227 to 255\<close>

text \<open>
  \<open>is_space\<close> is the class \<^verbatim>\<open>\s\<close> on the code units below 256; \<open>find_sub\<close> splits a
  text at the first occurrence of a pattern; \<open>str_includes\<close> is
  \<^verbatim>\<open>String.prototype.includes\<close>.
\<close>

definition is_space :: "char \<Rightarrow> bool" where
  "is_space c = ((of_char c :: nat) \<in> {9, 10, 11, 12, 13, 32, 160})"

fun find_sub :: "string \<Rightarrow> string \<Rightarrow> (string \<times> string) option" where
  "find_sub pat [] = (if pat = [] then Some ([], []) else None)"
| "find_sub pat (c # cs) =
     (if prefix pat (c # cs) then Some ([], drop (length pat) (c # cs))
      else (case find_sub pat cs of
              None \<Rightarrow> None
            | Some (before, after) \<Rightarrow> Some (c # before, after)))"

definition str_includes :: "string \<Rightarrow> string \<Rightarrow> bool" where
  "str_includes s pat = (find_sub pat s \<noteq> None)"

definition rtrim :: "string \<Rightarrow> string" where
  "rtrim s = rev (dropWhile is_space (rev s))"

text \<open>
  The first match of \<^verbatim>\<open>/```json\s*([\s\S]*?)\s*```/\<close> (and of the same expression
  without \<^verbatim>\<open>json\<close>), by its captured group. The match starts at the first opener;
  \<^verbatim>\<open>\s*\<close> takes all the white space after it; the lazy group then ends as early as a
  run of white space followed by a fence allows, which is before the white space in
  front of the next fence. When no fence follows the first opener, no later opener
  has one either, and there is no match.
\<close>

definition match_fence :: "string \<Rightarrow> string \<Rightarrow> string option" where
  "match_fence opener content =
     (case find_sub opener content of
        None \<Rightarrow> None
      | Some (before, rest) \<Rightarrow>
          (case find_sub ''```'' (dropWhile is_space rest) of
             None \<Rightarrow> None
           | Some (inner, after) \<Rightarrow> Some (rtrim inner)))"

text \<open>
  The match of \<^verbatim>\<open>/\{[\s\S]*\}/\<close>: from the first \<^verbatim>\<open>{\<close> to the last \<^verbatim>\<open>}\<close> after it.
\<close>

definition match_braces :: "string \<Rightarrow> string option" where
  "match_braces content =
     (case dropWhile (\<lambda>c. c \<noteq> CHR ''{'') content of
        [] \<Rightarrow> None
      | c # rest \<Rightarrow>
          (case rev (dropWhile (\<lambda>c. c \<noteq> CHR ''}'') (rev rest)) of
             [] \<Rightarrow> None
           | r # rs \<Rightarrow> Some (c # r # rs)))"

text \<open>The variable \<^verbatim>\<open>jsonContent\<close> after lines 230 to 247.\<close>

definition jsonContent :: "string \<Rightarrow> string" where
  "jsonContent content =
     (if str_includes content ''```json'' then
        (case match_fence ''```json'' content of Some g \<Rightarrow> g | None \<Rightarrow> content)
      else if str_includes content ''```'' then
        (case match_fence ''```'' content of Some g \<Rightarrow> g | None \<Rightarrow> content)
      else
        (case match_braces content of Some m \<Rightarrow> m | None \<Rightarrow> content))"


text \<open>
  Lines 249 to 255: the candidate is parsed; a failure is written to the console,
  with the candidate, and a new error with a fixed message is thrown. The second
  component is what \<^verbatim>\<open>console.error\<close> received, a label and a value per call.
\<close>

type_synonym console = "(string \<times> string) list"

definition extractJson :: "runtime \<Rightarrow> string \<Rightarrow> (error + json) \<times> console" where
  "extractJson rt content =
     (let candidate = jsonContent content in
      case JSON_parse rt candidate of
        Inr v \<Rightarrow> (Inr v, [])
      | Inl parseError \<Rightarrow>
          (Inl (Error ''Invalid JSON response from AI model''),
           [(''JSON Parse Error:'', parseError), (''Content:'', candidate)]))"

text \<open>
  The provider answers a request and its messages with the content of the first choice
  (\<open>None\<close> when it has none), or fails with a message. \<^verbatim>\<open>GroqClient.chat\<close> wraps it.
\<close>

type_synonym message = "string \<times> string"
type_synonym provider = "request \<Rightarrow> message list \<Rightarrow> string + string option"

definition chat ::
  "provider \<Rightarrow> string \<Rightarrow> message list \<Rightarrow> options \<Rightarrow> (error + string) \<times> console" where
  "chat provider model messages opts =
     (case provider (chat_request model opts) messages of
        Inl msg \<Rightarrow> (Inl (Error (''Groq API error: '' @ msg)), [(''Groq API error:'', msg)])
      | Inr c \<Rightarrow> (Inr (case c of None \<Rightarrow> [] | Some text \<Rightarrow> text), []))"

text \<open>\<^verbatim>\<open>generateProjectStructure(prompt, model)\<close>; the text of the system prompt
  (lines 147 to 215) is a parameter.\<close>

definition generateProjectStructure ::
  "runtime \<Rightarrow> provider \<Rightarrow> string \<Rightarrow> string \<Rightarrow> string \<Rightarrow> (error + json) \<times> console" where
  "generateProjectStructure rt provider systemPrompt prompt model =
     (case chat provider model [(''system'', systemPrompt), (''user'', prompt)]
             \<lparr> temperature = Some (3 / 10), maxTokens = Some 8000, top_p = None \<rparr> of
        (Inl e, out) \<Rightarrow> (Inl e, out)
      | (Inr content, out) \<Rightarrow>
          (case extractJson rt content of (r, out') \<Rightarrow> (r, out @ out')))"

text \<open>
  The candidate as the specification words it: the interior of the first fenced block
  tagged \<^verbatim>\<open>json\<close> if the text has one, else the interior of the first fenced block if
  it has one, else the text from the first \<^verbatim>\<open>{\<close> to the last \<^verbatim>\<open>}\<close>.
\<close>

definition spec_candidate :: "string \<Rightarrow> string option" where
  "spec_candidate content =
     (case match_fence ''```json'' content of
        Some g \<Rightarrow> Some g
      | None \<Rightarrow>
          (case match_fence ''```'' content of
             Some g \<Rightarrow> Some g
           | None \<Rightarrow> match_braces content))"

text \<open>A text without white space at either end.\<close>

definition trimmed :: "string \<Rightarrow> bool" where
  "trimmed s = (s = [] \<or> (\<not> is_space (hd s) \<and> \<not> is_space (last s)))"

section \<open>A model of the runtime library\<close>

text \<open>
  A parser for the JSON grammar, used where a concrete runtime is needed. The fuel of
  the mutually recursive functions is twice the length of the text, more than the
  nesting depth needs. An escape \<^verbatim>\<open>\uXXXX\<close> above \<^verbatim>\<open>00FF\<close> has no code unit in
  the model and is refused. An object keeps the last value of a repeated key.
\<close>

definition json_ws :: "char \<Rightarrow> bool" where
  "json_ws c = (c = CHR '' '' \<or> c = CHR 0x09 \<or> c = CHR 0x0A \<or> c = CHR 0x0D)"

definition is_digit :: "char \<Rightarrow> bool" where
  "is_digit c = (48 \<le> (of_char c :: nat) \<and> (of_char c :: nat) \<le> 57)"

definition hex_value :: "char \<Rightarrow> nat option" where
  "hex_value c =
     (let n = (of_char c :: nat) in
      if 48 \<le> n \<and> n \<le> 57 then Some (n - 48)
      else if 65 \<le> n \<and> n \<le> 70 then Some (n - 55)
      else if 97 \<le> n \<and> n \<le> 102 then Some (n - 87)
      else None)"

definition unescape :: "char \<Rightarrow> char option" where
  "unescape e =
     (if e = CHR 0x22 \<or> e = CHR 0x5C \<or> e = CHR ''/'' then Some e
      else if e = CHR ''b'' then Some (CHR 0x08)
      else if e = CHR ''f'' then Some (CHR 0x0C)
      else if e = CHR ''n'' then Some (CHR 0x0A)
      else if e = CHR ''r'' then Some (CHR 0x0D)
      else if e = CHR ''t'' then Some (CHR 0x09)
      else None)"

definition unicode_escape :: "string \<Rightarrow> char option" where
  "unicode_escape hs =
     (case map hex_value hs of
        [Some a, Some b, Some c, Some d] \<Rightarrow>
          if a = 0 \<and> b = 0 then Some (char_of (16 * c + d)) else None
      | _ \<Rightarrow> None)"

fun parse_chars :: "nat \<Rightarrow> string \<Rightarrow> (string \<times> string) option" where
  "parse_chars 0 cs = None"
| "parse_chars (Suc n) [] = None"
| "parse_chars (Suc n) (c # cs) =
     (if c = CHR 0x22 then Some ([], cs)
      else if c = CHR 0x5C then
        (case cs of
           [] \<Rightarrow> None
         | e # cs' \<Rightarrow>
             if e = CHR ''u'' then
               (case unicode_escape (take 4 cs') of
                  None \<Rightarrow> None
                | Some ch \<Rightarrow>
                    (case parse_chars n (drop 4 cs') of
                       None \<Rightarrow> None
                     | Some (s, r) \<Rightarrow> Some (ch # s, r)))
             else
               (case unescape e of
                  None \<Rightarrow> None
                | Some ch \<Rightarrow>
                    (case parse_chars n cs' of
                       None \<Rightarrow> None
                     | Some (s, r) \<Rightarrow> Some (ch # s, r))))
      else if (of_char c :: nat) < 32 then None
      else (case parse_chars n cs of
              None \<Rightarrow> None
            | Some (s, r) \<Rightarrow> Some (c # s, r)))"

definition parse_number :: "string \<Rightarrow> (string \<times> string) option" where
  "parse_number cs =
     (let sign = takeWhile (\<lambda>c. c = CHR ''-'') (take 1 cs);
          r0 = drop (length sign) cs;
          ds = takeWhile is_digit r0;
          r1 = dropWhile is_digit r0
      in if ds = [] \<or> (hd ds = CHR ''0'' \<and> length ds > 1) then None
         else
           (let dot = take 1 r1 = ''.'';
                fs = (if dot then takeWhile is_digit (drop 1 r1) else []);
                r2 = (if dot then dropWhile is_digit (drop 1 r1) else r1)
            in if dot \<and> fs = [] then None
               else
                 (let e = (take 1 r2 = ''e'' \<or> take 1 r2 = ''E'');
                      sg = (if e then takeWhile (\<lambda>c. c = CHR ''+'' \<or> c = CHR ''-'') (take 1 (drop 1 r2)) else []);
                      es = (if e then takeWhile is_digit (drop (1 + length sg) r2) else []);
                      r3 = (if e then dropWhile is_digit (drop (1 + length sg) r2) else r2)
                  in if e \<and> es = [] then None
                     else Some (sign @ ds @ (if dot then ''.'' @ fs else [])
                                 @ (if e then take 1 r2 @ sg @ es else []), r3))))"

definition object_of :: "(string \<times> 'a) list \<Rightarrow> (string \<times> 'a) list" where
  "object_of kvs = foldl (\<lambda>acc kv. AList.update (fst kv) (snd kv) acc) [] kvs"

fun parse_value :: "nat \<Rightarrow> string \<Rightarrow> (json \<times> string) option"
  and parse_elements :: "nat \<Rightarrow> string \<Rightarrow> (json list \<times> string) option"
  and parse_members :: "nat \<Rightarrow> string \<Rightarrow> ((string \<times> json) list \<times> string) option" where
  "parse_value 0 cs = None"
| "parse_value (Suc n) cs =
     (case dropWhile json_ws cs of
        [] \<Rightarrow> None
      | c # r \<Rightarrow>
          if c = CHR ''{'' then
            (if take 1 (dropWhile json_ws r) = ''}'' then Some (JObj [], drop 1 (dropWhile json_ws r))
             else (case parse_members n r of
                     None \<Rightarrow> None
                   | Some (kvs, r') \<Rightarrow> Some (JObj (object_of kvs), r')))
          else if c = CHR ''['' then
            (if take 1 (dropWhile json_ws r) = '']'' then Some (JArr [], drop 1 (dropWhile json_ws r))
             else (case parse_elements n r of
                     None \<Rightarrow> None
                   | Some (vs, r') \<Rightarrow> Some (JArr vs, r')))
          else if c = CHR 0x22 then
            (case parse_chars (length r) r of
               None \<Rightarrow> None
             | Some (s, r') \<Rightarrow> Some (JStr s, r'))
          else if prefix ''true'' (c # r) then Some (JBool True, drop 3 r)
          else if prefix ''false'' (c # r) then Some (JBool False, drop 4 r)
          else if prefix ''null'' (c # r) then Some (JNull, drop 3 r)
          else (case parse_number (c # r) of
                  None \<Rightarrow> None
                | Some (lexeme, r') \<Rightarrow> Some (JNum lexeme, r')))"
| "parse_elements 0 cs = None"
| "parse_elements (Suc n) cs =
     (case parse_value n cs of
        None \<Rightarrow> None
      | Some (v, r) \<Rightarrow>
          (case dropWhile json_ws r of
             [] \<Rightarrow> None
           | d # r' \<Rightarrow>
               if d = CHR '']'' then Some ([v], r')
               else if d = CHR '','' then
                 (case parse_elements n r' of
                    None \<Rightarrow> None
                  | Some (vs, r'') \<Rightarrow> Some (v # vs, r''))
               else None))"
| "parse_members 0 cs = None"
| "parse_members (Suc n) cs =
     (case dropWhile json_ws cs of
        [] \<Rightarrow> None
      | q # r \<Rightarrow>
          if q \<noteq> CHR 0x22 then None
          else
            (case parse_chars (length r) r of
               None \<Rightarrow> None
             | Some (k, r1) \<Rightarrow>
                 (case dropWhile json_ws r1 of
                    [] \<Rightarrow> None
                  | colon # r2 \<Rightarrow>
                      if colon \<noteq> CHR '':'' then None
                      else
                        (case parse_value n r2 of
                           None \<Rightarrow> None
                         | Some (v, r3) \<Rightarrow>
                             (case dropWhile json_ws r3 of
                                [] \<Rightarrow> None
                              | d # r4 \<Rightarrow>
                                  if d = CHR ''}'' then Some ([(k, v)], r4)
                                  else if d = CHR '','' then
                                    (case parse_members n r4 of
                                       None \<Rightarrow> None
                                     | Some (kvs, r5) \<Rightarrow> Some ((k, v) # kvs, r5))
                                  else None)))))"

definition json_parse :: "string \<Rightarrow> string + json" where
  "json_parse text =
     (case parse_value (2 * length text + 2) text of
        None \<Rightarrow> Inl ''SyntaxError''
      | Some (v, r) \<Rightarrow> if dropWhile json_ws r = [] then Inr v else Inl ''SyntaxError'')"


text \<open>\<^verbatim>\<open>JSON.stringify(v, null, 2)\<close>\<close>

definition hex_digit :: "nat \<Rightarrow> char" where
  "hex_digit n = (if n < 10 then char_of (48 + n) else char_of (87 + n))"

definition escape_char :: "char \<Rightarrow> string" where
  "escape_char c =
     (if c = CHR 0x22 then [CHR 0x5C, CHR 0x22]
      else if c = CHR 0x5C then [CHR 0x5C, CHR 0x5C]
      else if c = CHR 0x08 then [CHR 0x5C, CHR ''b'']
      else if c = CHR 0x0C then [CHR 0x5C, CHR ''f'']
      else if c = CHR 0x0A then [CHR 0x5C, CHR ''n'']
      else if c = CHR 0x0D then [CHR 0x5C, CHR ''r'']
      else if c = CHR 0x09 then [CHR 0x5C, CHR ''t'']
      else if (of_char c :: nat) < 32 then
        [CHR 0x5C, CHR ''u'', CHR ''0'', CHR ''0'',
         hex_digit ((of_char c :: nat) div 16), hex_digit ((of_char c :: nat) mod 16)]
      else [c])"

definition quote :: "string \<Rightarrow> string" where
  "quote s = CHR 0x22 # concat (map escape_char s) @ [CHR 0x22]"

fun join_with :: "string \<Rightarrow> string list \<Rightarrow> string" where
  "join_with sep [] = []"
| "join_with sep [x] = x"
| "join_with sep (x # y # ys) = x @ sep @ join_with sep (y # ys)"

fun stringify_at :: "string \<Rightarrow> json \<Rightarrow> string" where
  "stringify_at ind JNull = ''null''"
| "stringify_at ind (JBool b) = (if b then ''true'' else ''false'')"
| "stringify_at ind (JNum lexeme) = lexeme"
| "stringify_at ind (JStr s) = quote s"
| "stringify_at ind (JArr vs) =
     (if vs = [] then ''[]''
      else ''['' @ [CHR 0x0A] @ ind @ ''  ''
           @ join_with ('','' @ [CHR 0x0A] @ ind @ ''  '')
               (map (\<lambda>v. stringify_at (ind @ ''  '') v) vs)
           @ [CHR 0x0A] @ ind @ '']'')"
| "stringify_at ind (JObj kvs) =
     (if kvs = [] then ''{}''
      else ''{'' @ [CHR 0x0A] @ ind @ ''  ''
           @ join_with ('','' @ [CHR 0x0A] @ ind @ ''  '')
               (map (\<lambda>(k, v). quote k @ '': '' @ stringify_at (ind @ ''  '') v) kvs)
           @ [CHR 0x0A] @ ind @ ''}'')"

definition json_stringify :: "json \<Rightarrow> string" where
  "json_stringify v = stringify_at [] v"

text \<open>
  The time of a date text in the format \<^verbatim>\<open>toISOString\<close> writes
  (\<^verbatim>\<open>YYYY-MM-DDTHH:mm:ss.sssZ\<close>), in milliseconds since the epoch. The program
  stamps its projects in this format. The model gives \<open>None\<close> (an invalid date) for
  everything else, which is a simplification for the other formats \<^verbatim>\<open>Date\<close> reads.
\<close>

definition digits_value :: "string \<Rightarrow> int" where
  "digits_value ds = foldl (\<lambda>a c. 10 * a + (int (of_char c) - 48)) 0 ds"

definition days_from_civil :: "int \<Rightarrow> int \<Rightarrow> int \<Rightarrow> int" where
  "days_from_civil y m d =
     (let y' = (if m \<le> 2 then y - 1 else y);
          era = y' div 400;
          yoe = y' - era * 400;
          doy = (153 * (if m > 2 then m - 3 else m + 9) + 2) div 5 + d - 1;
          doe = yoe * 365 + yoe div 4 - yoe div 100 + doy
      in era * 146097 + doe - 719468)"

definition days_in_month :: "int \<Rightarrow> int \<Rightarrow> int" where
  "days_in_month y m =
     (if m = 2 then (if y mod 4 = 0 \<and> (y mod 100 \<noteq> 0 \<or> y mod 400 = 0) then 29 else 28)
      else if m = 4 \<or> m = 6 \<or> m = 9 \<or> m = 11 then 30 else 31)"

definition iso_time :: "string \<Rightarrow> int option" where
  "iso_time s =
     (if length s = 24
         \<and> (\<forall>i \<in> set [0, 1, 2, 3, 5, 6, 8, 9, 11, 12, 14, 15, 17, 18, 20, 21, 22]. is_digit (s ! i))
         \<and> s ! 4 = CHR ''-'' \<and> s ! 7 = CHR ''-'' \<and> s ! 10 = CHR ''T'' \<and> s ! 13 = CHR '':''
         \<and> s ! 16 = CHR '':'' \<and> s ! 19 = CHR ''.'' \<and> s ! 23 = CHR ''Z''
      then
        (let y = digits_value (take 4 s);
             m = digits_value (take 2 (drop 5 s));
             d = digits_value (take 2 (drop 8 s));
             h = digits_value (take 2 (drop 11 s));
             mi = digits_value (take 2 (drop 14 s));
             sec = digits_value (take 2 (drop 17 s));
             ms = digits_value (take 3 (drop 20 s))
         in if 1 \<le> m \<and> m \<le> 12 \<and> 1 \<le> d \<and> d \<le> days_in_month y m
               \<and> h \<le> 23 \<and> mi \<le> 59 \<and> sec \<le> 59
            then Some ((((days_from_civil y m d * 24 + h) * 60 + mi) * 60 + sec) * 1000 + ms)
            else None)
      else None)"

definition date_time :: "json option \<Rightarrow> int option" where
  "date_time v = (case v of Some (JStr s) \<Rightarrow> iso_time s | _ \<Rightarrow> None)"

definition node_runtime :: runtime where
  "node_runtime = \<lparr> JSON_parse = json_parse, JSON_stringify = json_stringify, Date_time = date_time \<rparr>"


section \<open>Objects\<close>

text \<open>
  \<^verbatim>\<open>Object.entries(v)\<close>: \<open>None\<close> is the \<^verbatim>\<open>TypeError\<close> on \<^verbatim>\<open>undefined\<close> and
  \<^verbatim>\<open>null\<close>. The entries of an object come in the order of the text it was parsed
  from (JavaScript lists keys that are array indices first).
\<close>

definition object_entries :: "json option \<Rightarrow> (string \<times> json) list option" where
  "object_entries v =
     (case v of
        None \<Rightarrow> None
      | Some JNull \<Rightarrow> None
      | Some (JObj kvs) \<Rightarrow> Some kvs
      | Some (JStr s) \<Rightarrow> Some (map (\<lambda>(i, c). (show_nat i, JStr [c])) (enumerate 0 s))
      | Some (JArr xs) \<Rightarrow> Some (map (\<lambda>(i, x). (show_nat i, x)) (enumerate 0 xs))
      | Some (JBool b) \<Rightarrow> Some []
      | Some (JNum n) \<Rightarrow> Some [])"

text \<open>The object literal \<^verbatim>\<open>{...target, ...v}\<close>: a property of \<open>v\<close> replaces the value
  of a property of the same name and keeps its place, or is added at the end.\<close>

definition spread :: "(string \<times> json) list \<Rightarrow> json \<Rightarrow> (string \<times> json) list" where
  "spread target v =
     (case object_entries (Some v) of
        None \<Rightarrow> target
      | Some kvs \<Rightarrow> foldl (\<lambda>acc kv. AList.update (fst kv) (snd kv) acc) target kvs)"

section \<open>The materializer: \<^verbatim>\<open>FileSystemManager.createProjectFiles\<close>\<close>

text \<open>\<^verbatim>\<open>fileData.content || ''\<close> as the data of \<^verbatim>\<open>fs.writeFile\<close>: a falsy content is
  the empty text; a truthy content that is no string is refused with a
  \<^verbatim>\<open>TypeError\<close> (\<open>None\<close>).\<close>

definition file_data :: "json option \<Rightarrow> string option" where
  "file_data content =
     (if \<not> truthy content then Some []
      else (case content of Some (JStr text) \<Rightarrow> Some text | _ \<Rightarrow> None))"

text \<open>The loop over \<^verbatim>\<open>Object.entries(fileTree)\<close>: \<open>None\<close> when it completes, or the error
  that ends it; the disk keeps what was written before.\<close>

fun write_entries ::
  "fspath \<Rightarrow> nat \<Rightarrow> (string \<times> json) list \<Rightarrow> node \<Rightarrow> error option \<times> node" where
  "write_entries projectPath now [] fs = (None, fs)"
| "write_entries projectPath now ((filePath, fileData) # rest) fs =
     (let fullPath = path_join projectPath filePath in
      if fileData = JNull then (Some TypeError, fs)
      else if get_prop fileData ''type'' = Some (JStr ''directory'') then
        (case mkdir fs fullPath of
           None \<Rightarrow> (Some IOError, fs)
         | Some fs1 \<Rightarrow> write_entries projectPath now rest fs1)
      else if get_prop fileData ''type'' = Some (JStr ''file'') then
        (case mkdir fs (path_dirname fullPath) of
           None \<Rightarrow> (Some IOError, fs)
         | Some fs1 \<Rightarrow>
             (case file_data (get_prop fileData ''content'') of
                None \<Rightarrow> (Some TypeError, fs1)
              | Some text \<Rightarrow>
                  (case writeFile fs1 fullPath text now of
                     None \<Rightarrow> (Some IOError, fs1)
                   | Some fs2 \<Rightarrow> write_entries projectPath now rest fs2)))
      else write_entries projectPath now rest fs)"

definition createProjectFiles ::
  "path \<Rightarrow> string \<Rightarrow> json option \<Rightarrow> nat \<Rightarrow> node \<Rightarrow> (error + fspath) \<times> node" where
  "createProjectFiles dirname projectId fileTree now fs =
     (let projectPath = project_path dirname projectId in
      case mkdir fs projectPath of
        None \<Rightarrow> (Inl IOError, fs)
      | Some fs1 \<Rightarrow>
          (case object_entries fileTree of
             None \<Rightarrow> (Inl TypeError, fs1)
           | Some entries \<Rightarrow>
               (case write_entries projectPath now entries fs1 of
                  (Some e, fs2) \<Rightarrow> (Inl e, fs2)
                | (None, fs2) \<Rightarrow> (Inr projectPath, fs2))))"

section \<open>The scan: \<^verbatim>\<open>FileSystemManager.getFileTree\<close>\<close>

text \<open>
  The scanned tree as the sequence of its assignments \<^verbatim>\<open>tree[key] = {type}\<close>.
  \<^verbatim>\<open>getFileTree(projectPath, key)\<close> reads the directory at \<^verbatim>\<open>projectPath/key\<close>
  again from the root; the names \<^verbatim>\<open>readdir\<close> lists are plain names, so this is
  the directory the entry stands for, and the model recurses into it.
\<close>

datatype kind = KDirectory | KFile

fun getFileTree :: "node \<Rightarrow> string \<Rightarrow> (string \<times> kind) list" where
  "getFileTree (File c t) relativePath = []"
| "getFileTree (Dir items) relativePath =
     concat (map (\<lambda>(item, child).
        let key = (if relativePath = [] then item else relativePath @ ''/'' @ item) in
        (case child of
           Dir entries \<Rightarrow> (key, KDirectory) # getFileTree child key
         | File c t \<Rightarrow> [(key, KFile)])) items)"

text \<open>\<^verbatim>\<open>getFileTree(projectPath)\<close>: rejected when \<^verbatim>\<open>readdir\<close> is.\<close>

definition scan_project :: "node \<Rightarrow> fspath \<Rightarrow> (string \<times> kind) list option" where
  "scan_project fs projectPath =
     (case lookup fs (fst projectPath) of
        Some (Dir items) \<Rightarrow> Some (getFileTree (Dir items) [])
      | _ \<Rightarrow> None)"

section \<open>The project store\<close>

text \<open>Lines 450 to 456: the metadata record.\<close>

definition metadata_record :: "string \<Rightarrow> string \<Rightarrow> string \<Rightarrow> string \<Rightarrow> json \<Rightarrow> json" where
  "metadata_record projectId prompt model generated projectData =
     JObj (spread [(''id'', JStr projectId), (''prompt'', JStr prompt), (''model'', JStr model),
                   (''generated'', JStr generated)] projectData)"

definition metadata_path :: "fspath \<Rightarrow> fspath" where
  "metadata_path projectPath = path_join projectPath ''project-metadata.json''"

text \<open>
  \<^verbatim>\<open>POST /api/generate\<close>. \<open>projectId\<close> is what \<^verbatim>\<open>uuidv4()\<close> returned and \<open>generated\<close>
  what \<^verbatim>\<open>new Date().toISOString()\<close> returned; \<open>readme\<close> stands for the text of
  \<^verbatim>\<open>README.md\<close> that lines 464 to 492 build from the descriptor (\<open>None\<close> when
  building it throws). Of the success body the reply keeps the identifier and the keys
  of the file tree.
\<close>

definition generate ::
  "runtime \<Rightarrow> provider \<Rightarrow> string \<Rightarrow> (json \<Rightarrow> string option) \<Rightarrow> bool \<Rightarrow> path \<Rightarrow> string
     \<Rightarrow> string \<Rightarrow> nat \<Rightarrow> string option \<Rightarrow> string option \<Rightarrow> node \<Rightarrow> reply \<times> node" where
  "generate rt provider systemPrompt readme apiKeySet dirname projectId generated now
       prompt model fs =
     (case prompt of
        None \<Rightarrow> (Failure 400 ''Prompt is required'', fs)
      | Some p \<Rightarrow>
          if p = [] then (Failure 400 ''Prompt is required'', fs)
          else if \<not> apiKeySet then (Failure 500 ''Groq API key not configured'', fs)
          else
            (case fst (generateProjectStructure rt provider systemPrompt p (default_model model)) of
               Inl e \<Rightarrow> (Failure 500 ''Failed to generate project'', fs)
             | Inr projectData \<Rightarrow>
                 if projectData = JNull then (Failure 500 ''Failed to generate project'', fs)
                 else
                   (case createProjectFiles dirname projectId
                           (get_prop projectData ''fileTree'') now fs of
                      (Inl e, fs1) \<Rightarrow> (Failure 500 ''Failed to generate project'', fs1)
                    | (Inr projectPath, fs1) \<Rightarrow>
                        (case writeFile fs1 (metadata_path projectPath)
                                (JSON_stringify rt
                                   (metadata_record projectId p (default_model model)
                                      generated projectData)) now of
                           None \<Rightarrow> (Failure 500 ''Failed to generate project'', fs1)
                         | Some fs2 \<Rightarrow>
                             (case readme projectData of
                                None \<Rightarrow> (Failure 500 ''Failed to generate project'', fs2)
                              | Some text \<Rightarrow>
                                  (case writeFile fs2 (path_join projectPath ''README.md'')
                                          text now of
                                     None \<Rightarrow> (Failure 500 ''Failed to generate project'', fs2)
                                   | Some fs3 \<Rightarrow>
                                       (Generated projectId
                                          (map fst (object_of
                                             (the (object_entries
                                                (get_prop projectData ''fileTree''))))),
                                        fs3)))))))"

text \<open>\<^verbatim>\<open>GET /api/project/:projectId\<close>: the stored record and the keys of the scan.\<close>

definition get_project :: "runtime \<Rightarrow> path \<Rightarrow> string \<Rightarrow> node \<Rightarrow> reply" where
  "get_project rt dirname projectId fs =
     (let projectPath = project_path dirname projectId in
      if \<not> access fs projectPath then Failure 404 ''Project not found''
      else
        (case readFile fs (metadata_path projectPath) of
           None \<Rightarrow> Failure 404 ''Project not found''
         | Some metadata \<Rightarrow>
             (case JSON_parse rt metadata of
                Inl e \<Rightarrow> Failure 404 ''Project not found''
              | Inr projectData \<Rightarrow>
                  (case scan_project fs projectPath of
                     None \<Rightarrow> Failure 404 ''Project not found''
                   | Some currentFileTree \<Rightarrow>
                       Project (JObj (AList.update ''currentFileTree''
                         (JArr (map (\<lambda>kv. JStr (fst kv)) (object_of currentFileTree)))
                         (spread [] projectData)))))))"








section \<open>Names and example data\<close>


text \<open>A disk with one project \<open>p1\<close> under \<^verbatim>\<open>/app/generated_projects\<close>, and a generator
  that appends a mark to the content it is given.\<close>

definition disk0 :: node where
  "disk0 = Dir [(''app'', Dir [(''generated_projects'',
      Dir [(''p1'', Dir [(''a.js'', File ''v0'' 0), (''src'', Dir [])])])])]"

definition append_mark :: generator where
  "append_mark filePath currentContent wanted model = Some (currentContent @ ''+'')"




section \<open>Observations of the disk\<close>

text \<open>
  What a path names: a directory or a regular file. A disk is well formed when no
  directory lists a name twice. The type of a file-tree entry, as the materializer
  reads it.
\<close>

definition kind_of_node :: "node \<Rightarrow> kind" where
  "kind_of_node n = (if is_dir n then KDirectory else KFile)"

definition kind_at :: "node \<Rightarrow> path \<Rightarrow> kind option" where
  "kind_at fs p = map_option kind_of_node (lookup fs p)"



definition entry_kind :: "json \<Rightarrow> kind option" where
  "entry_kind fileData =
     (if get_prop fileData ''type'' = Some (JStr ''directory'') then Some KDirectory
      else if get_prop fileData ''type'' = Some (JStr ''file'') then Some KFile
      else None)"


text \<open>Two file trees for project \<open>p2\<close>: one entry that climbs out of the project, and a
  directory with a file.\<close>

definition traversal_tree :: json where
  "traversal_tree = JObj [(''../evil.txt'', JObj [(''type'', JStr ''file''), (''content'', JStr ''x'')])]"

definition plain_tree :: json where
  "plain_tree = JObj [(''src/'', JObj [(''type'', JStr ''directory'')]),
                      (''src/app.js'', JObj [(''type'', JStr ''file''), (''content'', JStr ''x'')])]"


text \<open>The key the scan gives the entry at the path \<open>q\<close> below a directory whose own key
  is \<open>r\<close>.\<close>

definition key_from :: "string \<Rightarrow> path \<Rightarrow> string" where
  "key_from r q = foldl (\<lambda>rel item. if rel = [] then item else rel @ ''/'' @ item) r q"


section \<open>The gateway's defaults\<close>

text \<open>
  C10. The gateway applies its defaults with logical-or: a call whose options set
  temperature, maxTokens or top_p to 0 is sent with the default (0.7, 4000, 1) in that
  field, exactly as a call that leaves the field out; any other value is sent as given.
\<close>

theorem chat_defaults_replace_zero:
  "(temperature opts = Some 0 \<longrightarrow> req_temperature (chat_request model opts) = 7 / 10) \<and>
   (maxTokens opts = Some 0 \<longrightarrow> req_max_tokens (chat_request model opts) = 4000) \<and>
   (top_p opts = Some 0 \<longrightarrow> req_top_p (chat_request model opts) = 1) \<and>
   (temperature opts = None \<longrightarrow> req_temperature (chat_request model opts) = 7 / 10) \<and>
   (maxTokens opts = None \<longrightarrow> req_max_tokens (chat_request model opts) = 4000) \<and>
   (top_p opts = None \<longrightarrow> req_top_p (chat_request model opts) = 1) \<and>
   (\<forall>x. x \<noteq> 0 \<longrightarrow>
      (temperature opts = Some x \<longrightarrow> req_temperature (chat_request model opts) = x) \<and>
      (maxTokens opts = Some x \<longrightarrow> req_max_tokens (chat_request model opts) = x) \<and>
      (top_p opts = Some x \<longrightarrow> req_top_p (chat_request model opts) = x))"
  by (simp add: chat_request_def or_default_def)

theorem chat_defaults_replace_zero_witness:
  "chat_request ''llama-4-scout'' \<lparr> temperature = Some 0, maxTokens = Some 0, top_p = Some 0 \<rparr>
     = \<lparr> req_model = ''meta-llama/llama-4-scout-17b-16e-instruct'',
         req_temperature = 7 / 10, req_max_tokens = 4000, req_top_p = 1,
         req_stream = False \<rparr>"
  using chat_defaults_replace_zero
    [of "\<lparr> temperature = Some 0, maxTokens = Some 0, top_p = Some 0 \<rparr>" "''llama-4-scout''"]
  by (simp add: chat_request_def resolve_model_def AVAILABLE_MODELS_def)


section \<open>Paths and the file system: basic facts\<close>


lemma split_slash_no_sep: "CHR ''/'' \<notin> set s \<Longrightarrow> split_slash s = [s]"
  by (induction s) (auto split: list.splits)


lemma PROJECTS_DIR_eq: "PROJECTS_DIR dirname = (dirname @ [''generated_projects''], False)"
  by (simp add: PROJECTS_DIR_def path_join_def normalize_from_def norm_step_def)


lemma lookup_append:
  "lookup n (p @ q) = (case lookup n p of None \<Rightarrow> None | Some m \<Rightarrow> lookup m q)"
proof (induction p arbitrary: n)
  case Nil
  show ?case by simp
next
  case (Cons s p)
  show ?case
  proof (cases n)
    case (File c t)
    then show ?thesis by simp
  next
    case (Dir items)
    then show ?thesis using Cons.IH by (simp split: option.splits)
  qed
qed

lemma lookup_File_below: "lookup (File c t) (p @ q) = None \<or> p @ q = []"
  by (cases "p @ q") auto





section \<open>Deleting\<close>




section \<open>Reading a file\<close>

text \<open>
  C3, as the code has it. The handler answers 404 when the path does not exist (or names
  a regular file through a path with a trailing separator), 400 when it names a
  directory, and otherwise sends the file's content, the requested path, the size and
  the modification time.
\<close>

theorem get_file_replies:
  "get_file dirname projectId filePath fs =
     (case lookup fs (fst (file_path dirname projectId filePath)) of
        None \<Rightarrow> Failure 404 ''File not found''
      | Some (Dir items) \<Rightarrow> Failure 400 ''Path is a directory, not a file''
      | Some (File c t) \<Rightarrow>
          if snd (file_path dirname projectId filePath) then Failure 404 ''File not found''
          else FileContent c filePath (utf8_size c) t)"
  by (simp add: get_file_def stat_def readFile_def Let_def split: option.splits node.splits)


theorem get_file_replies_witness:
  "get_file [''app''] ''p1'' ''a.js'' disk0 = FileContent ''v0'' ''a.js'' 2 0
   \<and> get_file [''app''] ''p1'' ''missing.js'' disk0 = Failure 404 ''File not found''"
  using get_file_replies [of "[''app'']" "''p1''" "''a.js''" disk0]
    get_file_replies [of "[''app'']" "''p1''" "''missing.js''" disk0]
  by (simp add: file_path_def project_path_def PROJECTS_DIR_eq path_join_def split_slash_no_sep
      normalize_from_def norm_step_def disk0_def utf8_size_def)

text \<open>C3 as stated fails on a directory: the answer is 400, not 404.\<close>

theorem get_file_directory_is_400:
  "lookup disk0 (fst (file_path [''app''] ''p1'' ''src'')) = Some (Dir [])
   \<and> get_file [''app''] ''p1'' ''src'' disk0 = Failure 400 ''Path is a directory, not a file''"
  by (simp add: get_file_def stat_def file_path_def project_path_def PROJECTS_DIR_eq path_join_def
      split_slash_no_sep normalize_from_def norm_step_def disk0_def)

section \<open>Backups of enhance and rewrite\<close>

text \<open>
  C2 fails on the code. Two enhance calls in a row on \<open>a.js\<close>: the second writes its
  backup to the same path \<open>a.js.backup\<close> as the first, so the only backup left holds the
  content after the first call, and the original content \<open>v0\<close> is on the disk no more.
\<close>

theorem enhance_twice_overwrites_backup:
  "enhance [''app''] append_mark ''p1'' ''a.js'' (Some ''more'') None 2
     (snd (enhance [''app''] append_mark ''p1'' ''a.js'' (Some ''more'') None 1 disk0))
   = (Enhanced ''File enhanced successfully'' ''v0++'',
      Dir [(''app'', Dir [(''generated_projects'',
        Dir [(''p1'', Dir [(''a.js'', File ''v0++'' 2), (''src'', Dir []),
                           (''a.js.backup'', File ''v0+'' 2)])])])])"
  by (simp add: enhance_def backup_then_replace_def file_path_def project_path_def
      PROJECTS_DIR_eq path_join_def split_slash_no_sep normalize_from_def norm_step_def
      stat_def disk0_def readFile_def writeFile_def path_suffix_def append_mark_def
      default_model_def)

text \<open>The rewrite handler next to it suffixes the backup with the time, and keeps both.\<close>

lemma show_nat_1000: "show_nat 1000 = ''1000''"
  by code_simp

lemma show_nat_2000: "show_nat 2000 = ''2000''"
  by code_simp

lemma rewrite_twice_keeps_both_backups:
  "rewrite [''app''] append_mark ''p1'' ''a.js'' (Some ''more'') None 2000
     (snd (rewrite [''app''] append_mark ''p1'' ''a.js'' (Some ''more'') None 1000 disk0))
   = (Enhanced ''File rewritten successfully'' ''v0++'',
      Dir [(''app'', Dir [(''generated_projects'',
        Dir [(''p1'', Dir [(''a.js'', File ''v0++'' 2000), (''src'', Dir []),
                           (''a.js.backup.1000'', File ''v0'' 1000),
                           (''a.js.backup.2000'', File ''v0+'' 2000)])])])])"
  by (simp add: rewrite_def backup_then_replace_def file_path_def project_path_def
      PROJECTS_DIR_eq path_join_def split_slash_no_sep normalize_from_def norm_step_def
      stat_def disk0_def readFile_def writeFile_def path_suffix_def append_mark_def
      default_model_def show_nat_1000 show_nat_2000)


section \<open>The response extractor\<close>

lemma find_sub_None: "find_sub pat s = None \<longleftrightarrow> \<not> sublist pat s"
  by (induction s) (auto simp: sublist_Cons_right split: option.splits)

lemma includes_sublist: "str_includes s pat \<longleftrightarrow> sublist pat s"
  by (simp add: str_includes_def find_sub_None)

lemma find_sub_first:
  assumes "pat \<noteq> []" and "\<not> sublist pat (b @ butlast pat)"
  shows "find_sub pat (b @ pat @ a) = Some (b, a)"
  using assms(2)
proof (induction b)
  case Nil
  from assms(1) obtain c cs where "pat @ a = c # cs" by (cases pat) auto
  moreover have "prefix pat (pat @ a)" by simp
  ultimately show ?case
    by (metis append_Nil append_eq_conv_conj find_sub.simps(2))
next
  case (Cons x b)
  have len: "length pat \<le> length ((x # b) @ butlast pat)"
    using assms(1) by (cases pat rule: rev_cases) auto
  have np: "\<not> prefix pat ((x # b) @ pat @ a)"
  proof
    assume p: "prefix pat ((x # b) @ pat @ a)"
    have q: "prefix ((x # b) @ butlast pat) ((x # b) @ pat @ a)"
      using assms(1) by (metis append_butlast_last_id append.assoc prefixI same_prefix_prefix prefix_def)
    from prefix_length_prefix [OF p q len] have "prefix pat ((x # b) @ butlast pat)" .
    then have "sublist pat ((x # b) @ butlast pat)" by (rule prefix_imp_sublist)
    with Cons.prems show False by simp
  qed
  from Cons.prems have "\<not> sublist pat (b @ butlast pat)"
    by (simp add: sublist_Cons_right)
  from Cons.IH [OF this] np show ?case by simp
qed


lemma fence_not_space: "\<not> is_space (CHR 0x60)"
  by (simp add: is_space_def)

lemma dropWhile_spaces:
  "\<forall>c \<in> set ws. is_space c \<Longrightarrow> xs = [] \<or> \<not> is_space (hd xs) \<Longrightarrow>
     dropWhile is_space (ws @ xs) = xs"
  by (cases xs) (auto simp: dropWhile_append2)

lemma rtrim_spaces:
  "\<forall>c \<in> set ws. is_space c \<Longrightarrow> xs = [] \<or> \<not> is_space (last xs) \<Longrightarrow>
     rtrim (xs @ ws) = xs"
proof -
  assume ws: "\<forall>c \<in> set ws. is_space c" and xs: "xs = [] \<or> \<not> is_space (last xs)"
  have "dropWhile is_space (rev ws @ rev xs) = rev xs"
  proof (rule dropWhile_spaces)
    show "\<forall>c \<in> set (rev ws). is_space c" using ws by simp
    show "rev xs = [] \<or> \<not> is_space (hd (rev xs))" using xs by (auto simp: hd_rev)
  qed
  then show ?thesis by (simp add: rtrim_def)
qed

lemma match_fence_closed:
  assumes opener: "opener \<noteq> []" "\<not> sublist opener (pre @ butlast opener)"
    and ws: "\<forall>c \<in> set ws1. is_space c" "\<forall>c \<in> set ws2. is_space c"
    and inner: "trimmed inner" "\<not> sublist ''```'' (inner @ ws2 @ ''``'')"
  shows "match_fence opener (pre @ opener @ ws1 @ inner @ ws2 @ ''```'' @ post) = Some inner"
proof -
  have f1: "find_sub opener (pre @ opener @ ws1 @ inner @ ws2 @ ''```'' @ post)
      = Some (pre, ws1 @ inner @ ws2 @ ''```'' @ post)"
    using find_sub_first [OF opener] by simp
  show ?thesis
  proof (cases "inner = []")
    case True
    have "dropWhile is_space ((ws1 @ ws2) @ ''```'' @ post) = ''```'' @ post"
      by (rule dropWhile_spaces) (use ws in \<open>auto simp: is_space_def\<close>)
    then have d: "dropWhile is_space (ws1 @ inner @ ws2 @ ''```'' @ post) = ''```'' @ post"
      using True by simp
    have "\<not> sublist ''```'' ([] @ butlast ''```'')"
      by (simp add: sublist_Cons_right)
    from find_sub_first [OF _ this, of post]
    have f2: "find_sub ''```'' (''```'' @ post) = Some ([], post)" by simp
    have r: "rtrim [] = inner" using True by (simp add: rtrim_def)
    show ?thesis
      by (simp only: match_fence_def f1 d f2 r option.case prod.case)
  next
    case False
    have d: "dropWhile is_space (ws1 @ inner @ ws2 @ ''```'' @ post) = inner @ ws2 @ ''```'' @ post"
      by (rule dropWhile_spaces) (use ws inner False in \<open>auto simp: trimmed_def\<close>)
    have "\<not> sublist ''```'' ((inner @ ws2) @ butlast ''```'')"
      using inner(2) by simp
    from find_sub_first [OF _ this, of post]
    have f2: "find_sub ''```'' (inner @ ws2 @ ''```'' @ post) = Some (inner @ ws2, post)"
      by simp
    have r: "rtrim (inner @ ws2) = inner"
      by (rule rtrim_spaces) (use ws inner in \<open>auto simp: trimmed_def\<close>)
    show ?thesis
      by (simp only: match_fence_def f1 d f2 r option.case prod.case)
  qed
qed

lemma match_fence_open:
  assumes opener: "opener \<noteq> []" "\<not> sublist opener (pre @ butlast opener)"
    and rest: "\<not> sublist ''```'' rest"
  shows "match_fence opener (pre @ opener @ rest) = None"
proof -
  have f1: "find_sub opener (pre @ opener @ rest) = Some (pre, rest)"
    using find_sub_first [OF opener] by simp
  have "suffix (dropWhile is_space rest) rest"
    by (rule suffix_dropWhile)
  then have "sublist (dropWhile is_space rest) rest" by (rule suffix_imp_sublist)
  with rest have "\<not> sublist ''```'' (dropWhile is_space rest)"
    using sublist_order.order_trans by blast
  then have f2: "find_sub ''```'' (dropWhile is_space rest) = None"
    by (simp only: find_sub_None not_False_eq_True)
  show ?thesis by (simp only: match_fence_def f1 f2 option.case prod.case)
qed

lemma match_braces_some:
  assumes "CHR ''{'' \<notin> set pre" and "CHR ''}'' \<notin> set post"
  shows "match_braces (pre @ CHR ''{'' # mid @ CHR ''}'' # post) = Some (CHR ''{'' # mid @ ''}'')"
proof -
  have d: "dropWhile (\<lambda>c. c \<noteq> CHR ''{'') (pre @ CHR ''{'' # mid @ CHR ''}'' # post)
      = CHR ''{'' # mid @ CHR ''}'' # post"
    using assms(1) by (auto simp: dropWhile_append3)
  have "dropWhile (\<lambda>c. c \<noteq> CHR ''}'') (rev post @ CHR ''}'' # rev mid) = CHR ''}'' # rev mid"
    using assms(2) by (auto simp: dropWhile_append3)
  then have e: "rev (dropWhile (\<lambda>c. c \<noteq> CHR ''}'') (rev (mid @ CHR ''}'' # post))) = mid @ ''}''"
    by simp
  show ?thesis
    unfolding match_braces_def d list.case e by (cases mid) simp_all
qed

lemma match_braces_none:
  assumes "CHR ''{'' \<notin> set pre" and "CHR ''}'' \<notin> set rest"
  shows "match_braces pre = None" and "match_braces (pre @ CHR ''{'' # rest) = None"
proof -
  have e0: "dropWhile (\<lambda>c. c \<noteq> CHR ''{'') pre = []"
    using assms(1) by (auto simp: dropWhile_eq_Nil_conv)
  show "match_braces pre = None" unfolding match_braces_def e0 by simp
  have d: "dropWhile (\<lambda>c. c \<noteq> CHR ''{'') (pre @ CHR ''{'' # rest) = CHR ''{'' # rest"
    using assms(1) by (auto simp: dropWhile_append3)
  have e1: "dropWhile (\<lambda>c. c \<noteq> CHR ''}'') (rev rest) = []"
    using assms(2) by (auto simp: dropWhile_eq_Nil_conv)
  show "match_braces (pre @ CHR ''{'' # rest) = None"
    unfolding match_braces_def d list.case e1 by simp
qed


lemma sublist_eval:
  "sublist [] ys" "\<not> sublist (x # xs) []"
  "sublist (x # xs) (y # ys) \<longleftrightarrow> prefix (x # xs) (y # ys) \<or> sublist (x # xs) ys"
  by (simp_all add: sublist_Cons_right)

text \<open>
  C4, as the code has it. The candidate is chosen by what the text includes, not by the
  blocks it has. (1) A text that includes \<^verbatim>\<open>```json\<close>: the interior of the first block
  so opened, without the white space around it, when a fence closes it; the whole text
  when none does. (2) Else a text that includes \<^verbatim>\<open>```\<close>: the interior of the first
  fenced block, or the whole text when no second fence follows. (3) Else the text from
  the first \<^verbatim>\<open>{\<close> to the last \<^verbatim>\<open>}\<close>; the whole text when there is no such pair.
  The candidate is then parsed.
\<close>

theorem jsonContent_precedence:
  "(\<not> sublist ''```json'' (pre @ ''```jso'') \<and> (\<forall>c \<in> set ws1. is_space c)
      \<and> (\<forall>c \<in> set ws2. is_space c) \<and> trimmed inner
      \<and> \<not> sublist ''```'' (inner @ ws2 @ ''``'')
    \<longrightarrow> jsonContent (pre @ ''```json'' @ ws1 @ inner @ ws2 @ ''```'' @ post) = inner)
   \<and> (\<not> sublist ''```json'' (pre @ ''```jso'') \<and> \<not> sublist ''```'' rest
    \<longrightarrow> jsonContent (pre @ ''```json'' @ rest) = pre @ ''```json'' @ rest)
   \<and> (\<not> sublist ''```json'' (pre @ ''```'' @ ws1 @ inner @ ws2 @ ''```'' @ post)
      \<and> \<not> sublist ''```'' (pre @ ''``'') \<and> (\<forall>c \<in> set ws1. is_space c)
      \<and> (\<forall>c \<in> set ws2. is_space c) \<and> trimmed inner
      \<and> \<not> sublist ''```'' (inner @ ws2 @ ''``'')
    \<longrightarrow> jsonContent (pre @ ''```'' @ ws1 @ inner @ ws2 @ ''```'' @ post) = inner)
   \<and> (\<not> sublist ''```json'' (pre @ ''```'' @ rest) \<and> \<not> sublist ''```'' (pre @ ''``'')
      \<and> \<not> sublist ''```'' rest
    \<longrightarrow> jsonContent (pre @ ''```'' @ rest) = pre @ ''```'' @ rest)
   \<and> (\<not> sublist ''```'' (pre @ ''{'' @ mid @ ''}'' @ post) \<and> CHR ''{'' \<notin> set pre
      \<and> CHR ''}'' \<notin> set post
    \<longrightarrow> jsonContent (pre @ ''{'' @ mid @ ''}'' @ post) = ''{'' @ mid @ ''}'')
   \<and> (\<not> sublist ''```'' (pre @ ''{'' @ rest) \<and> CHR ''{'' \<notin> set pre \<and> CHR ''}'' \<notin> set rest
    \<longrightarrow> jsonContent (pre @ ''{'' @ rest) = pre @ ''{'' @ rest)
   \<and> (\<not> sublist ''```'' pre \<and> CHR ''{'' \<notin> set pre \<longrightarrow> jsonContent pre = pre)
   \<and> fst (extractJson rt content) =
       (case JSON_parse rt (jsonContent content) of
          Inr v \<Rightarrow> Inr v
        | Inl e \<Rightarrow> Inl (Error ''Invalid JSON response from AI model''))"
proof -
  have nj: "''```json'' \<noteq> []" and nf: "''```'' \<noteq> []" by simp_all
  have bj: "butlast ''```json'' = ''```jso''" and bf: "butlast ''```'' = ''``''" by simp_all
  have c1: "jsonContent (pre @ ''```json'' @ ws1 @ inner @ ws2 @ ''```'' @ post) = inner"
    if h: "\<not> sublist ''```json'' (pre @ ''```jso'')" "\<forall>c \<in> set ws1. is_space c"
      "\<forall>c \<in> set ws2. is_space c" "trimmed inner" "\<not> sublist ''```'' (inner @ ws2 @ ''``'')"
  proof -
    have "sublist ''```json'' (pre @ ''```json'' @ ws1 @ inner @ ws2 @ ''```'' @ post)"
      by (rule sublist_appendI)
    moreover have "match_fence ''```json'' (pre @ ''```json'' @ ws1 @ inner @ ws2 @ ''```'' @ post)
        = Some inner"
      by (rule match_fence_closed) (use h nj bj in simp_all)
    ultimately show ?thesis
      by (simp only: jsonContent_def includes_sublist if_True option.case)
  qed
  have c2: "jsonContent (pre @ ''```json'' @ rest) = pre @ ''```json'' @ rest"
    if h: "\<not> sublist ''```json'' (pre @ ''```jso'')" "\<not> sublist ''```'' rest"
  proof -
    have "sublist ''```json'' (pre @ ''```json'' @ rest)"
      by (rule sublist_appendI)
    moreover have "match_fence ''```json'' (pre @ ''```json'' @ rest) = None"
      by (rule match_fence_open) (use h nj bj in simp_all)
    ultimately show ?thesis
      by (simp only: jsonContent_def includes_sublist if_True option.case)
  qed
  have c3: "jsonContent (pre @ ''```'' @ ws1 @ inner @ ws2 @ ''```'' @ post) = inner"
    if h: "\<not> sublist ''```json'' (pre @ ''```'' @ ws1 @ inner @ ws2 @ ''```'' @ post)"
      "\<not> sublist ''```'' (pre @ ''``'')" "\<forall>c \<in> set ws1. is_space c"
      "\<forall>c \<in> set ws2. is_space c" "trimmed inner" "\<not> sublist ''```'' (inner @ ws2 @ ''``'')"
  proof -
    have "sublist ''```'' (pre @ ''```'' @ ws1 @ inner @ ws2 @ ''```'' @ post)"
      by (rule sublist_appendI)
    moreover have "match_fence ''```'' (pre @ ''```'' @ ws1 @ inner @ ws2 @ ''```'' @ post)
        = Some inner"
      by (rule match_fence_closed) (use h nf bf in simp_all)
    ultimately show ?thesis
      using h(1) by (simp only: jsonContent_def includes_sublist if_True if_False option.case)
  qed
  have c4: "jsonContent (pre @ ''```'' @ rest) = pre @ ''```'' @ rest"
    if h: "\<not> sublist ''```json'' (pre @ ''```'' @ rest)" "\<not> sublist ''```'' (pre @ ''``'')"
      "\<not> sublist ''```'' rest"
  proof -
    have "sublist ''```'' (pre @ ''```'' @ rest)"
      by (rule sublist_appendI)
    moreover have "match_fence ''```'' (pre @ ''```'' @ rest) = None"
      by (rule match_fence_open) (use h nf bf in simp_all)
    ultimately show ?thesis
      using h(1) by (simp only: jsonContent_def includes_sublist if_True if_False option.case)
  qed
  have nojson: "\<not> sublist ''```json'' t" if "\<not> sublist ''```'' t" for t
  proof
    assume "sublist ''```json'' t"
    moreover have "sublist ''```'' ''```json''"
      by (simp add: sublist_eval)
    ultimately have "sublist ''```'' t" using sublist_order.order_trans by blast
    with that show False by simp
  qed
  have c5: "jsonContent (pre @ ''{'' @ mid @ ''}'' @ post) = ''{'' @ mid @ ''}''"
    if h: "\<not> sublist ''```'' (pre @ ''{'' @ mid @ ''}'' @ post)" "CHR ''{'' \<notin> set pre"
      "CHR ''}'' \<notin> set post"
  proof -
    have "match_braces (pre @ CHR ''{'' # mid @ CHR ''}'' # post) = Some (CHR ''{'' # mid @ ''}'')"
      by (rule match_braces_some) (use h in simp_all)
    then have "match_braces (pre @ ''{'' @ mid @ ''}'' @ post) = Some (''{'' @ mid @ ''}'')"
      by simp
    then show ?thesis
      using h(1) nojson [OF h(1)]
      by (simp only: jsonContent_def includes_sublist if_False option.case)
  qed
  have c6: "jsonContent (pre @ ''{'' @ rest) = pre @ ''{'' @ rest"
    if h: "\<not> sublist ''```'' (pre @ ''{'' @ rest)" "CHR ''{'' \<notin> set pre" "CHR ''}'' \<notin> set rest"
  proof -
    have "match_braces (pre @ CHR ''{'' # rest) = None"
      by (rule match_braces_none) (use h in simp_all)
    then have "match_braces (pre @ ''{'' @ rest) = None" by simp
    then show ?thesis
      using h(1) nojson [OF h(1)]
      by (simp only: jsonContent_def includes_sublist if_False option.case)
  qed
  have c7: "jsonContent pre = pre" if h: "\<not> sublist ''```'' pre" "CHR ''{'' \<notin> set pre"
  proof -
    have "match_braces pre = None"
      by (rule match_braces_none(1) [where rest = "[]"]) (use h in simp_all)
    then show ?thesis
      using h(1) nojson [OF h(1)]
      by (simp only: jsonContent_def includes_sublist if_False option.case)
  qed
  have c8: "fst (extractJson rt content) =
       (case JSON_parse rt (jsonContent content) of
          Inr v \<Rightarrow> Inr v
        | Inl e \<Rightarrow> Inl (Error ''Invalid JSON response from AI model''))"
    by (simp add: extractJson_def Let_def split: sum.splits)
  from c1 c2 c3 c4 c5 c6 c7 c8 show ?thesis by blast
qed

theorem jsonContent_precedence_witness:
  "jsonContent ''Here: ```json {\"a\": 1} ``` bye'' = ''{\"a\": 1}''
   \<and> jsonContent ''Sure: {\"a\": {}} and {more}!'' = ''{\"a\": {}} and {more}''"
proof -
  have a: "jsonContent (''Here: '' @ ''```json'' @ '' '' @ ''{\"a\": 1}'' @ '' '' @ ''```'' @ '' bye'')
      = ''{\"a\": 1}''"
    by (rule jsonContent_precedence [THEN conjunct1, rule_format])
      (simp add: sublist_eval is_space_def trimmed_def)
  have b: "jsonContent (''Sure: '' @ ''{'' @ ''\"a\": {}} and {more'' @ ''}'' @ ''!'')
      = ''{'' @ ''\"a\": {}} and {more'' @ ''}''"
    by (rule jsonContent_precedence [THEN conjunct2, THEN conjunct2, THEN conjunct2,
          THEN conjunct2, THEN conjunct1, rule_format])
      (simp add: sublist_eval)
  from a b show ?thesis by simp
qed

text \<open>
  C4 as stated fails on a text with a fenced block and, after it, an opener
  \<^verbatim>\<open>```json\<close> that nothing closes: the specification's order gives the block's
  interior, the code takes the whole text.
\<close>

theorem jsonContent_unclosed_marker:
  "spec_candidate ''```{}``` ```json'' = Some ''{}''
   \<and> jsonContent ''```{}``` ```json'' = ''```{}``` ```json''"
  by code_simp

text \<open>
  C5, as the code has it. Whenever the candidate does not parse, the extractor throws
  one error, \<^verbatim>\<open>Error('Invalid JSON response from AI model')\<close>, and no other; the
  message is fixed, and the candidate goes to the console, not into the error.
\<close>

theorem extractJson_failure:
  "(JSON_parse rt (jsonContent content) = Inl e \<longrightarrow>
      extractJson rt content =
        (Inl (Error ''Invalid JSON response from AI model''),
         [(''JSON Parse Error:'', e), (''Content:'', jsonContent content)]))
   \<and> (\<forall>err. fst (extractJson rt content) = Inl err \<longrightarrow>
         err = Error ''Invalid JSON response from AI model'')"
  by (auto simp: extractJson_def Let_def split: sum.splits)

theorem extractJson_failure_witness:
  "extractJson node_runtime ''no json here'' =
     (Inl (Error ''Invalid JSON response from AI model''),
      [(''JSON Parse Error:'', ''SyntaxError''), (''Content:'', ''no json here'')])"
proof -
  have c: "jsonContent ''no json here'' = ''no json here''" by code_simp
  have p: "JSON_parse node_runtime (jsonContent ''no json here'') = Inl ''SyntaxError''"
    unfolding c by code_simp
  from extractJson_failure [THEN conjunct1, rule_format, OF p] c show ?thesis by simp
qed

text \<open>C5 as stated fails: the error does not include the offending text.\<close>

theorem extractJson_error_without_content:
  "fst (extractJson node_runtime ''no json here'') = Inl (Error ''Invalid JSON response from AI model'')
   \<and> jsonContent ''no json here'' = ''no json here''
   \<and> \<not> sublist ''no json here'' ''Invalid JSON response from AI model''"
  by code_simp



section \<open>Listing the projects\<close>











section \<open>What the file-system calls change\<close>

lemma lookup_Nil_below: "p \<noteq> [] \<Longrightarrow> lookup (Dir []) p = None"
  by (cases p) auto

lemma lookup_File_children: "p \<noteq> [] \<Longrightarrow> lookup (File c t) p = None"
  by (cases p) auto

lemma mkdir_at_frame:
  "mkdir_at fs q = Some fs' \<Longrightarrow> \<not> prefix p q \<Longrightarrow> lookup fs' p = lookup fs p"
proof (induction q arbitrary: fs fs' p)
  case Nil
  then show ?case by (cases fs) auto
next
  case (Cons s q)
  from Cons.prems(1) obtain items where fs: "fs = Dir items" by (cases fs) auto
  let ?child = "case map_of items s of None \<Rightarrow> Dir [] | Some child \<Rightarrow> child"
  from Cons.prems(1) fs obtain d where d: "mkdir_at ?child q = Some d"
    and fs': "fs' = Dir (AList.update s d items)"
    by (auto split: option.splits)
  from Cons.prems(2) obtain x p' where p: "p = x # p'" by (cases p) auto
  show ?case
  proof (cases "x = s")
    case False
    with p fs fs' show ?thesis by (simp add: update_conv')
  next
    case True
    with Cons.prems(2) p have np: "\<not> prefix p' q" by simp
    then have ne: "p' \<noteq> []" by auto
    from Cons.IH [OF d np] have "lookup d p' = lookup ?child p'" .
    with True p fs fs' ne show ?thesis
      by (cases "map_of items s") (simp_all add: update_conv' lookup_Nil_below)
  qed
qed

lemma mkdir_at_prefix:
  "mkdir_at fs q = Some fs' \<Longrightarrow> prefix p q \<Longrightarrow> \<exists>items. lookup fs' p = Some (Dir items)"
proof (induction q arbitrary: fs fs' p)
  case Nil
  then show ?case by (cases fs) auto
next
  case (Cons s q)
  from Cons.prems(1) obtain items where fs: "fs = Dir items" by (cases fs) auto
  let ?child = "case map_of items s of None \<Rightarrow> Dir [] | Some child \<Rightarrow> child"
  from Cons.prems(1) fs obtain d where d: "mkdir_at ?child q = Some d"
    and fs': "fs' = Dir (AList.update s d items)"
    by (auto split: option.splits)
  show ?case
  proof (cases p)
    case Nil
    with fs' show ?thesis by simp
  next
    case (Cons x p')
    with Cons.prems(2) have "x = s" and pq: "prefix p' q" by simp_all
    from Cons.IH [OF d pq] obtain its where "lookup d p' = Some (Dir its)" by blast
    with \<open>x = s\<close> Cons fs' show ?thesis by (simp add: update_conv')
  qed
qed

lemma mkdir_at_was_dir:
  "mkdir_at fs q = Some fs' \<Longrightarrow> prefix p q \<Longrightarrow> lookup fs p = Some n \<Longrightarrow> is_dir n"
proof (induction q arbitrary: fs fs' p)
  case Nil
  then show ?case by (cases fs) auto
next
  case (Cons s q)
  from Cons.prems(1) obtain items where fs: "fs = Dir items" by (cases fs) auto
  let ?child = "case map_of items s of None \<Rightarrow> Dir [] | Some child \<Rightarrow> child"
  from Cons.prems(1) fs obtain d where d: "mkdir_at ?child q = Some d"
    by (auto split: option.splits)
  show ?case
  proof (cases p)
    case Nil
    with fs Cons.prems(3) show ?thesis by auto
  next
    case (Cons x p')
    with Cons.prems(2) have xs: "x = s" and pq: "prefix p' q" by simp_all
    from Cons.prems(3) Cons fs xs obtain c where c: "map_of items s = Some c"
      and l: "lookup c p' = Some n" by (auto split: option.splits)
    from d c have "mkdir_at c q = Some d" by simp
    from Cons.IH [OF this pq l] show ?thesis .
  qed
qed

lemma write_at_frame:
  "write_at fs q content now = Some fs' \<Longrightarrow> \<not> prefix p q \<Longrightarrow> lookup fs' p = lookup fs p"
proof (induction q arbitrary: fs fs' p)
  case Nil
  then have "p \<noteq> []" by auto
  with Nil show ?case by (cases fs) (auto simp: lookup_File_children)
next
  case (Cons s q)
  from Cons.prems(1) obtain items where fs: "fs = Dir items" by (cases fs) auto
  from Cons.prems(2) obtain x p' where p: "p = x # p'" by (cases p) auto
  show ?case
  proof (cases "x = s")
    case False
    with p fs Cons.prems(1) show ?thesis
      by (auto simp: update_conv' split: option.splits if_splits)
  next
    case True
    with Cons.prems(2) p have np: "\<not> prefix p' q" by simp
    then have ne: "p' \<noteq> []" by auto
    show ?thesis
    proof (cases "map_of items s")
      case None
      with Cons.prems(1) fs have "fs' = Dir (AList.update s (File content now) items)"
        by (auto split: if_splits)
      with True p fs None ne show ?thesis
        by (simp add: update_conv' lookup_File_children)
    next
      case (Some child)
      with Cons.prems(1) fs obtain d where d: "write_at child q content now = Some d"
        and fs': "fs' = Dir (AList.update s d items)"
        by (auto split: option.splits)
      from Cons.IH [OF d np] True p fs fs' Some show ?thesis
        by (simp add: update_conv')
    qed
  qed
qed

lemma write_at_target:
  "write_at fs q content now = Some fs' \<Longrightarrow> lookup fs' q = Some (File content now)"
proof (induction q arbitrary: fs fs')
  case Nil
  then show ?case by (cases fs) auto
next
  case (Cons s q)
  from Cons.prems(1) obtain items where fs: "fs = Dir items" by (cases fs) auto
  show ?case
  proof (cases "map_of items s")
    case None
    with Cons.prems fs show ?thesis by (auto simp: update_conv' split: if_splits)
  next
    case (Some child)
    with Cons.prems(1) fs obtain d where d: "write_at child q content now = Some d"
      and fs': "fs' = Dir (AList.update s d items)"
      by (auto split: option.splits)
    from Cons.IH [OF d] fs' show ?thesis by (simp add: update_conv')
  qed
qed

lemma lookup_through_dir:
  "lookup fs (p @ x # xs) = Some n \<Longrightarrow> \<exists>items. lookup fs p = Some (Dir items)"
proof -
  assume a: "lookup fs (p @ x # xs) = Some n"
  then obtain m where m: "lookup fs p = Some m" and b: "lookup m (x # xs) = Some n"
    by (auto simp: lookup_append split: option.splits)
  from b show ?thesis using m by (cases m) auto
qed

lemma strict_prefix_through:
  assumes "prefix p q" "p \<noteq> q" "lookup fs q = Some n"
  shows "\<exists>items. lookup fs p = Some (Dir items)"
proof -
  from assms(1,2) obtain x xs where "q = p @ x # xs"
    by (metis append_Nil2 neq_Nil_conv prefixE)
  with assms(3) show ?thesis using lookup_through_dir by blast
qed

lemma write_at_ancestors:
  assumes "write_at fs q content now = Some fs'" "prefix p q" "p \<noteq> q"
  shows "\<exists>items items'. lookup fs p = Some (Dir items) \<and> lookup fs' p = Some (Dir items')"
  using assms
proof (induction q arbitrary: fs fs' p)
  case Nil
  then show ?case by simp
next
  case (Cons s q)
  from Cons.prems(1) obtain items where fs: "fs = Dir items" by (cases fs) auto
  from Cons.prems(1) fs obtain n' where fs': "fs' = Dir n'"
    by (auto split: option.splits if_splits)
  show ?case
  proof (cases p)
    case Nil
    with fs fs' show ?thesis by simp
  next
    case (Cons x p')
    with Cons.prems(2,3) have xs: "x = s" and pq: "prefix p' q" and ne: "p' \<noteq> q" by simp_all
    from pq ne have "q \<noteq> []" by auto
    with Cons.prems(1) fs obtain child d where c: "map_of items s = Some child"
      and d: "write_at child q content now = Some d"
      and fs'': "fs' = Dir (AList.update s d items)"
      by (auto split: option.splits if_splits)
    from Cons.IH [OF d pq ne] xs Cons fs fs'' c show ?thesis
      by (simp add: update_conv')
  qed
qed

lemma kind_at_mkdir:
  assumes "mkdir_at fs q = Some fs'"
  shows "kind_at fs' p = (if prefix p q then Some KDirectory else kind_at fs p)"
proof (cases "prefix p q")
  case True
  from mkdir_at_prefix [OF assms True] show ?thesis
    using True by (auto simp: kind_at_def kind_of_node_def)
next
  case False
  from mkdir_at_frame [OF assms False] show ?thesis
    using False by (simp add: kind_at_def)
qed

lemma kind_at_mkdir_mono:
  assumes "mkdir_at fs q = Some fs'" "kind_at fs p = Some k"
  shows "kind_at fs' p = Some k"
proof (cases "prefix p q")
  case True
  from assms(2) obtain n where n: "lookup fs p = Some n" and k: "k = kind_of_node n"
    by (auto simp: kind_at_def)
  from mkdir_at_was_dir [OF assms(1) True n] k have "k = KDirectory"
    by (simp add: kind_of_node_def)
  with True assms(1) show ?thesis by (simp add: kind_at_mkdir)
next
  case False
  with assms show ?thesis by (simp add: kind_at_mkdir)
qed

lemma kind_at_write:
  assumes "write_at fs q content now = Some fs'"
  shows "kind_at fs' p = (if p = q then Some KFile else kind_at fs p)"
proof (cases "p = q")
  case True
  from write_at_target [OF assms] True show ?thesis
    by (simp add: kind_at_def kind_of_node_def)
next
  case False
  show ?thesis
  proof (cases "prefix p q")
    case True
    from write_at_ancestors [OF assms True False] False show ?thesis
      by (auto simp: kind_at_def kind_of_node_def)
  next
    case np: False
    from write_at_frame [OF assms np] False show ?thesis by (simp add: kind_at_def)
  qed
qed

lemma write_at_was_file:
  "write_at fs q content now = Some fs' \<Longrightarrow> lookup fs q = Some n \<Longrightarrow> \<not> is_dir n"
proof (induction q arbitrary: fs fs')
  case Nil
  then show ?case by (cases fs) auto
next
  case (Cons s q)
  from Cons.prems(1) obtain items where fs: "fs = Dir items" by (cases fs) auto
  from Cons.prems(2) fs obtain child where c: "map_of items s = Some child"
    and l: "lookup child q = Some n" by (auto split: option.splits)
  with Cons.prems(1) fs obtain d where d: "write_at child q content now = Some d"
    by (auto split: option.splits)
  from Cons.IH [OF d l] show ?case .
qed

lemma kind_at_write_mono:
  assumes "write_at fs q content now = Some fs'" "kind_at fs p = Some k"
  shows "kind_at fs' p = Some k"
proof (cases "p = q")
  case True
  from assms(2) True obtain n where n: "lookup fs q = Some n" and k: "k = kind_of_node n"
    by (auto simp: kind_at_def)
  from write_at_was_file [OF assms(1) n] k have "k = KFile" by (simp add: kind_of_node_def)
  with True assms(1) show ?thesis by (simp add: kind_at_write)
next
  case False
  with assms show ?thesis by (simp add: kind_at_write)
qed

lemma norm_step_prefix:
  "prefix base p \<Longrightarrow> seg \<noteq> ''..'' \<Longrightarrow> prefix base (norm_step p seg)"
  by (auto simp: norm_step_def)

lemma normalize_from_prefix:
  "prefix base p \<Longrightarrow> ''..'' \<notin> set segs \<Longrightarrow> prefix base (normalize_from p segs)"
  unfolding normalize_from_def
proof (induction segs arbitrary: p)
  case Nil
  then show ?case by simp
next
  case (Cons seg segs)
  from Cons.prems have "prefix base (norm_step p seg)" by (auto intro: norm_step_prefix)
  with Cons show ?case by simp
qed

lemma path_join_inside:
  "''..'' \<notin> set (split_slash k) \<Longrightarrow> prefix (fst pp) (fst (path_join pp k))"
  by (auto simp: path_join_def Let_def intro: normalize_from_prefix)

lemma outside_not_prefix:
  assumes out: "\<not> prefix pp p" "\<not> prefix p pp"
    and near: "prefix pp q \<or> prefix q pp"
  shows "\<not> prefix p q"
proof
  assume pq: "prefix p q"
  from near show False
  proof
    assume "prefix pp q"
    with pq have "prefix p pp \<or> prefix pp p" by (rule prefix_same_cases)
    with out show False by blast
  next
    assume "prefix q pp"
    with pq have "prefix p pp" by (rule prefix_order.order_trans)
    with out show False by blast
  qed
qed

lemma butlast_near:
  "prefix pp q \<Longrightarrow> prefix pp (butlast q) \<or> prefix (butlast q) pp"
proof -
  assume "prefix pp q"
  then obtain rel where q: "q = pp @ rel" by (auto elim: prefixE)
  show ?thesis
  proof (cases "rel = []")
    case True
    with q have "prefix (butlast q) pp" by (simp add: prefixeq_butlast)
    then show ?thesis ..
  next
    case False
    with q have "butlast q = pp @ butlast rel" by (simp add: butlast_append)
    then show ?thesis by simp
  qed
qed

lemma write_entries_frame:
  assumes out: "\<not> prefix (fst pp) p" "\<not> prefix p (fst pp)"
  shows "\<forall>(k, d) \<in> set entries. ''..'' \<notin> set (split_slash k) \<Longrightarrow>
         lookup (snd (write_entries pp now entries fs)) p = lookup fs p"
proof (induction entries arbitrary: fs)
  case Nil
  show ?case by simp
next
  case (Cons e entries)
  obtain k d where e: "e = (k, d)" by (cases e)
  let ?full = "path_join pp k"
  from Cons.prems e have inside: "prefix (fst pp) (fst ?full)"
    by (auto intro: path_join_inside)
  from Cons.prems have rest: "\<forall>(k, d) \<in> set entries. ''..'' \<notin> set (split_slash k)" by simp
  have n1: "\<not> prefix p (fst ?full)"
    by (rule outside_not_prefix [OF out]) (use inside in simp)
  have n2: "\<not> prefix p (butlast (fst ?full))"
    by (rule outside_not_prefix [OF out]) (use butlast_near [OF inside] in simp)
  have mk: "lookup fs1 p = lookup fs p" if "mkdir fs ?full = Some fs1" for fs1
    using that mkdir_at_frame [OF _ n1] by (simp add: mkdir_def)
  have mkd: "lookup fs1 p = lookup fs p" if "mkdir fs (path_dirname ?full) = Some fs1" for fs1
    using that mkdir_at_frame [OF _ n2] by (simp add: mkdir_def path_dirname_def)
  have wr: "lookup fs2 p = lookup fs1 p" if "writeFile fs1 ?full body now = Some fs2" for fs1 fs2 body
    using that write_at_frame [OF _ n1] by (auto simp: writeFile_def split: if_splits)
  show ?case
    unfolding e write_entries.simps Let_def
    using Cons.IH [OF rest] mk mkd wr
    by (auto split: option.splits)
qed

lemma createProjectFiles_frame:
  assumes keys: "\<forall>entries. object_entries fileTree = Some entries \<longrightarrow>
                   (\<forall>(k, d) \<in> set entries. ''..'' \<notin> set (split_slash k))"
    and out: "\<not> prefix (fst (project_path dirname projectId)) p"
             "\<not> prefix p (fst (project_path dirname projectId))"
  shows "lookup (snd (createProjectFiles dirname projectId fileTree now fs)) p = lookup fs p"
proof -
  let ?pp = "project_path dirname projectId"
  show ?thesis
  proof (cases "mkdir fs ?pp")
    case None
    then show ?thesis by (simp add: createProjectFiles_def)
  next
    case (Some fs1)
    then have "mkdir_at fs (fst ?pp) = Some fs1" by (simp add: mkdir_def)
    from mkdir_at_frame [OF this out(2)] have f1: "lookup fs1 p = lookup fs p" .
    show ?thesis
    proof (cases "object_entries fileTree")
      case None
      with Some f1 show ?thesis by (simp add: createProjectFiles_def)
    next
      case (Some entries)
      with keys have "\<forall>(k, d) \<in> set entries. ''..'' \<notin> set (split_slash k)" by simp
      from write_entries_frame [OF out this, of now fs1]
      have "lookup (snd (write_entries ?pp now entries fs1)) p = lookup fs p"
        using f1 by simp
      with Some \<open>mkdir fs ?pp = Some fs1\<close> show ?thesis
        by (auto simp: createProjectFiles_def Let_def split: prod.splits option.splits)
    qed
  qed
qed

lemma write_entries_errors:
  "fst (write_entries pp now entries fs) \<in> {None, Some IOError, Some TypeError}"
proof (induction entries arbitrary: fs)
  case Nil
  show ?case by simp
next
  case (Cons e entries)
  obtain k d where e: "e = (k, d)" by (cases e)
  show ?case
    unfolding e write_entries.simps Let_def
    using Cons.IH by (auto split: option.splits)
qed

lemma createProjectFiles_errors:
  "fst (createProjectFiles dirname projectId fileTree now fs) \<noteq> Inl (Error msg)"
proof -
  have "fst (write_entries (project_path dirname projectId) now entries fs1) \<noteq> Some (Error msg)"
    for entries fs1
    using write_entries_errors [of "project_path dirname projectId" now entries fs1] by auto
  then have "write_entries (project_path dirname projectId) now entries fs1 \<noteq> (Some (Error msg), fs2)"
    for entries fs1 fs2
    by (metis fst_conv)
  then show ?thesis
    by (auto simp: createProjectFiles_def Let_def split: option.splits prod.splits)
qed

lemma write_entries_mono:
  "kind_at fs p = Some k \<Longrightarrow> kind_at (snd (write_entries pp now entries fs)) p = Some k"
proof (induction entries arbitrary: fs)
  case Nil
  then show ?case by simp
next
  case (Cons e entries)
  obtain k0 d0 where e: "e = (k0, d0)" by (cases e)
  let ?full = "path_join pp k0"
  have mk: "kind_at fs1 p = Some k" if "mkdir fs fp = Some fs1" for fs1 fp
    using that Cons.prems kind_at_mkdir_mono by (simp add: mkdir_def)
  have wr: "kind_at fs2 p = Some k" if "writeFile fs1 fp body now = Some fs2" "kind_at fs1 p = Some k"
    for fs1 fs2 fp body
    using that kind_at_write_mono by (auto simp: writeFile_def split: if_splits)
  show ?case
    unfolding e write_entries.simps Let_def
    using Cons.IH Cons.prems mk wr
    by (auto split: option.splits)
qed

lemma write_entries_kinds:
  "write_entries pp now entries fs = (None, fs') \<Longrightarrow> (k, d) \<in> set entries \<Longrightarrow>
     entry_kind d = Some kd \<Longrightarrow> kind_at fs' (fst (path_join pp k)) = Some kd"
proof (induction entries arbitrary: fs)
  case Nil
  then show ?case by simp
next
  case (Cons e entries)
  obtain k0 d0 where e: "e = (k0, d0)" by (cases e)
  let ?full = "path_join pp k0"
  from Cons.prems(1) e obtain mid where rest: "write_entries pp now entries mid = (None, fs')"
    and head: "entry_kind d0 = Some kd0 \<longrightarrow> kind_at mid (fst ?full) = Some kd0" for kd0
  proof -
    have ne: "d0 \<noteq> JNull" using Cons.prems(1) e by (auto simp: Let_def)
    show ?thesis
    proof (cases "get_prop d0 ''type'' = Some (JStr ''directory'')")
      case True
      with Cons.prems(1) e ne obtain fs1 where m: "mkdir fs ?full = Some fs1"
        and r: "write_entries pp now entries fs1 = (None, fs')"
        by (auto simp: Let_def split: option.splits)
      from m have "kind_at fs1 (fst ?full) = Some KDirectory"
        by (simp add: mkdir_def kind_at_mkdir)
      with True r that [of fs1] show ?thesis by (simp add: entry_kind_def)
    next
      case nd: False
      show ?thesis
      proof (cases "get_prop d0 ''type'' = Some (JStr ''file'')")
        case True
        with Cons.prems(1) e ne nd obtain fs1 body fs2
          where w: "writeFile fs1 ?full body now = Some fs2"
            and r: "write_entries pp now entries fs2 = (None, fs')"
          by (auto simp: Let_def split: option.splits)
        from w have "kind_at fs2 (fst ?full) = Some KFile"
          by (auto simp: writeFile_def kind_at_write split: if_splits)
        with True nd r that [of fs2] show ?thesis by (simp add: entry_kind_def)
      next
        case False
        with Cons.prems(1) e ne nd have "write_entries pp now entries fs = (None, fs')"
          by (simp add: Let_def)
        with False nd that [of fs] show ?thesis by (simp add: entry_kind_def)
      qed
    qed
  qed
  show ?case
  proof (cases "(k, d) = e")
    case True
    with e head Cons.prems(3) have "kind_at mid (fst (path_join pp k)) = Some kd" by simp
    from write_entries_mono [OF this, of pp now entries] rest show ?thesis by simp
  next
    case False
    with Cons.prems(2) have "(k, d) \<in> set entries" by simp
    from Cons.IH [OF rest this Cons.prems(3)] show ?thesis .
  qed
qed

lemma createProjectFiles_kinds:
  assumes "createProjectFiles dirname projectId fileTree now fs = (Inr pp, fs')"
    and "object_entries fileTree = Some entries" and "(k, d) \<in> set entries"
    and "entry_kind d = Some kd"
  shows "kind_at fs' (fst (path_join (project_path dirname projectId) k)) = Some kd"
proof -
  from assms(1,2) obtain fs1
    where "write_entries (project_path dirname projectId) now entries fs1 = (None, fs')"
    by (auto simp: createProjectFiles_def Let_def split: option.splits prod.splits)
  from write_entries_kinds [OF this assms(3,4)] show ?thesis .
qed

lemmas fs_eval = createProjectFiles_def project_path_def PROJECTS_DIR_eq path_join_def
  path_dirname_def normalize_from_def norm_step_def mkdir_def writeFile_def object_entries_def
  file_data_def


section \<open>The materializer and paths that leave the project\<close>

text \<open>
  C1, as the code has it. The materializer has no traversal check and no
  \<^verbatim>\<open>PathTraversal\<close> error: it fails only with a rejected file-system call or a
  \<^verbatim>\<open>TypeError\<close>. When it succeeds, every entry of type directory or file exists
  at the path \<^verbatim>\<open>path.join(projectPath, key)\<close> resolves to, wherever that is. When no
  key of the file tree has a \<^verbatim>\<open>..\<close> segment, whatever is written is inside the
  project's root: every path that is neither inside the root nor one of its ancestors
  names after the run what it named before.
\<close>

theorem createProjectFiles_no_traversal_check:
  "(\<forall>msg. fst (createProjectFiles dirname projectId fileTree now fs) \<noteq> Inl (Error msg))
   \<and> (\<forall>pp fs' entries k d kd.
         createProjectFiles dirname projectId fileTree now fs = (Inr pp, fs')
         \<and> object_entries fileTree = Some entries \<and> (k, d) \<in> set entries
         \<and> entry_kind d = Some kd
         \<longrightarrow> kind_at fs' (fst (path_join (project_path dirname projectId) k)) = Some kd)
   \<and> ((\<forall>entries. object_entries fileTree = Some entries \<longrightarrow>
           (\<forall>(k, d) \<in> set entries. ''..'' \<notin> set (split_slash k)))
        \<longrightarrow> (\<forall>p. \<not> prefix (fst (project_path dirname projectId)) p
                  \<and> \<not> prefix p (fst (project_path dirname projectId))
              \<longrightarrow> lookup (snd (createProjectFiles dirname projectId fileTree now fs)) p
                    = lookup fs p))"
proof (intro conjI allI impI)
  fix msg
  show "fst (createProjectFiles dirname projectId fileTree now fs) \<noteq> Inl (Error msg)"
    by (rule createProjectFiles_errors)
next
  fix pp fs' entries k d kd
  assume "createProjectFiles dirname projectId fileTree now fs = (Inr pp, fs')
         \<and> object_entries fileTree = Some entries \<and> (k, d) \<in> set entries
         \<and> entry_kind d = Some kd"
  then show "kind_at fs' (fst (path_join (project_path dirname projectId) k)) = Some kd"
    using createProjectFiles_kinds by blast
next
  fix p
  assume "\<forall>entries. object_entries fileTree = Some entries \<longrightarrow>
           (\<forall>(k, d) \<in> set entries. ''..'' \<notin> set (split_slash k))"
    and "\<not> prefix (fst (project_path dirname projectId)) p
                  \<and> \<not> prefix p (fst (project_path dirname projectId))"
  then show "lookup (snd (createProjectFiles dirname projectId fileTree now fs)) p = lookup fs p"
    using createProjectFiles_frame by blast
qed

theorem createProjectFiles_no_traversal_check_witness:
  "createProjectFiles [''app''] ''p2'' (Some plain_tree) 5 disk0 =
     (Inr ([''app'', ''generated_projects'', ''p2''], False),
      Dir [(''app'', Dir [(''generated_projects'',
        Dir [(''p1'', Dir [(''a.js'', File ''v0'' 0), (''src'', Dir [])]),
             (''p2'', Dir [(''src'', Dir [(''app.js'', File ''x'' 5)])])])])])
   \<and> lookup (snd (createProjectFiles [''app''] ''p2'' (Some plain_tree) 5 disk0))
         [''app'', ''generated_projects'', ''p1'']
       = lookup disk0 [''app'', ''generated_projects'', ''p1'']"
proof -
  have keys: "\<forall>entries. object_entries (Some plain_tree) = Some entries \<longrightarrow>
      (\<forall>(k, d) \<in> set entries. ''..'' \<notin> set (split_slash k))"
    by (simp add: object_entries_def plain_tree_def)
  have pp: "fst (project_path [''app''] ''p2'') = [''app'', ''generated_projects'', ''p2'']"
    by (simp add: project_path_def PROJECTS_DIR_eq path_join_def normalize_from_def norm_step_def)
  have out: "\<not> prefix (fst (project_path [''app''] ''p2'')) [''app'', ''generated_projects'', ''p1'']
      \<and> \<not> prefix [''app'', ''generated_projects'', ''p1''] (fst (project_path [''app''] ''p2''))"
    unfolding pp by simp
  have frame: "lookup (snd (createProjectFiles [''app''] ''p2'' (Some plain_tree) 5 disk0))
         [''app'', ''generated_projects'', ''p1'']
       = lookup disk0 [''app'', ''generated_projects'', ''p1'']"
    using createProjectFiles_no_traversal_check
      [of "[''app'']" "''p2''" "Some plain_tree" 5 disk0] keys out
    by blast
  have run: "createProjectFiles [''app''] ''p2'' (Some plain_tree) 5 disk0 =
     (Inr ([''app'', ''generated_projects'', ''p2''], False),
      Dir [(''app'', Dir [(''generated_projects'',
        Dir [(''p1'', Dir [(''a.js'', File ''v0'' 0), (''src'', Dir [])]),
             (''p2'', Dir [(''src'', Dir [(''app.js'', File ''x'' 5)])])])])])"
    by (simp add: fs_eval plain_tree_def disk0_def)
  from run frame show ?thesis by blast
qed

text \<open>
  C1 as stated fails: for the key \<^verbatim>\<open>../evil.txt\<close> the materializer succeeds and writes
  the file beside the project's directory, in the storage directory.
\<close>

theorem createProjectFiles_writes_outside:
  "createProjectFiles [''app''] ''p2'' (Some traversal_tree) 5 disk0 =
     (Inr ([''app'', ''generated_projects'', ''p2''], False),
      Dir [(''app'', Dir [(''generated_projects'',
        Dir [(''p1'', Dir [(''a.js'', File ''v0'' 0), (''src'', Dir [])]),
             (''p2'', Dir []),
             (''evil.txt'', File ''x'' 5)])])])"
  by (simp add: fs_eval traversal_tree_def disk0_def)



section \<open>Materialize, then scan\<close>

lemma key_from_simps [simp]:
  "key_from r [] = r"
  "key_from r (x # q) = key_from (if r = [] then x else r @ ''/'' @ x) q"
  by (simp_all add: key_from_def)

























end
